theory Spec2Isabelle
  imports Complex_Main
begin

section \<open>Game state store (src/core/gameState.js, class GameState)\<close>

text \<open>
  The store is one mutable object: \<open>this.state\<close>, \<open>this.gameData\<close> and the list
  \<open>this.observers\<close>. It is modelled by explicit state passing over the record
  \<open>store\<close>. Observer callbacks are opaque to the store; a callback is identified by a
  natural number and every invocation \<open>callback(this.state, change)\<close> is appended to the
  trace \<open>notified\<close> as the pair of the callback and the change it received. Callbacks are
  taken not to call back into the store (an exception they throw is caught and has no
  effect on the store). JavaScript numbers are modelled by \<open>int\<close>: the catalogue's
  healths, turn counts and damage amounts are whole numbers.
\<close>

datatype phase = Menu | Playing | Encounter | Boss | Victory | Defeat

record card =
  card_id :: string
  card_name :: string

record mana_pool =
  white :: int
  blue :: int
  black :: int
  red :: int
  green :: int
  colorless :: int

record player =
  p_id :: string
  p_name :: string
  p_health :: int
  p_maxHealth :: int
  mana :: mana_pool
  hand :: "card list"
  battlefield :: "card list"
  graveyard :: "card list"
  library :: "card list"
  p_abilities :: "string list"
  experience :: int
  level :: int

record boss =
  b_id :: string
  b_name :: string
  health :: int
  maxHealth :: int
  b_abilities :: "string list"
  weaknesses :: "string list"
  resistances :: "string list"
  b_difficulty :: int
  defeated :: bool
  b_location :: string

record encounter =
  e_title :: string
  e_location :: string
  e_weather :: string
  e_difficulty :: int
  e_rewards :: "string list"
  e_special :: "string option"

record item =
  i_id :: string
  i_name :: string
  i_type :: string
  i_description :: string

datatype quest_status = Active | Completed

record quest =
  q_id :: string
  q_title :: string
  q_objective :: string
  q_status :: quest_status
  q_progress :: int

record settings =
  autoTapLands :: bool
  showCardPreviews :: bool
  soundVolume :: int
  difficulty :: string

text \<open>\<open>this.state\<close>; \<open>null\<close> fields are \<open>None\<close>.\<close>

record game_state =
  gamePhase :: phase
  currentTurn :: int
  players :: "player list"
  currentBoss :: "boss option"
  currentEncounter :: "encounter option"
  location :: "string option"
  inventory :: "item list"
  quests :: "quest list"
  defeatedBosses :: "string list"
  gameSettings :: settings

text \<open>\<open>this.gameData\<close>.\<close>

record game_data =
  bosses :: "boss list"
  encounters :: "encounter list"
  playerCards :: "card list"
  customContent :: "string list"

text \<open>The argument of \<open>startNewGame\<close>; an absent property is \<open>None\<close>.\<close>

record options =
  playerCount :: "int option"
  playerNames :: "string list option"

text \<open>The record \<open>saveGame\<close> returns and \<open>loadGame\<close> reads; \<open>sd_state\<close> may be absent.\<close>

record save_data =
  version :: string
  timestamp :: nat
  sd_state :: "game_state option"
  sd_gameData :: game_data

datatype zone = Hand | Battlefield | Graveyard | Library

text \<open>
  The change objects handed to the observers, by their \<open>type\<close> property, with the
  payload of each. \<open>StateUpdate previous current\<close> is the \<open>state_update\<close> change that
  \<open>updateState\<close> emits.
\<close>

datatype change =
    StateUpdate game_state game_state
  | GameStarted options
  | GameLoaded save_data
  | GameSaved save_data
  | BossEncounterStarted boss
  | EncounterStarted encounter
  | BossDamaged int boss
  | BossDefeated boss bool
  | CardAddedToHand string card
  | CardPlayed string card zone
  | ItemAddedToInventory item
  | QuestAdded quest
  | QuestProgressUpdated string int
  | LocationChanged string
  | SettingsUpdated settings
  | GameReset

datatype error =
    InvalidSaveData
  | BossNotFound
  | NoActiveBossToDamage
  | NoActiveBossToDefeat

record store =
  state :: game_state
  gameData :: game_data
  observers :: "nat list"
  notified :: "(nat \<times> change) list"

subsection \<open>Construction\<close>

definition default_bosses :: "boss list" where
  "default_bosses =
    [\<lparr>b_id = ''vorthak-destroyer'', b_name = ''Vorthak the Destroyer'',
      health = 150, maxHealth = 150,
      b_abilities = [''Chaos Storm'', ''Reality Rift'', ''Void Manipulation''],
      weaknesses = [''white'', ''blue''], resistances = [''black'', ''red''],
      b_difficulty = 8, defeated = False, b_location = ''The Chaos Nexus''\<rparr>,
     \<lparr>b_id = ''malachar-corrupted'', b_name = ''Malachar the Corrupted'',
      health = 120, maxHealth = 120,
      b_abilities = [''Soul Drain'', ''Shadow Minions'', ''Corrupt Spells''],
      weaknesses = [''white'', ''green''], resistances = [''black''],
      b_difficulty = 6, defeated = False, b_location = ''The Shadowlands''\<rparr>,
     \<lparr>b_id = ''nethys-ancient'', b_name = ''Nethys the Ancient'',
      health = 200, maxHealth = 200,
      b_abilities = [''Time Manipulation'', ''Ancient Knowledge'', ''Planar Binding''],
      weaknesses = [''red'', ''green''], resistances = [''blue'', ''white''],
      b_difficulty = 9, defeated = False, b_location = ''The Temporal Sanctum''\<rparr>]"

definition defaultPlayer :: player where
  "defaultPlayer =
    \<lparr>p_id = '''', p_name = ''Player'', p_health = 20, p_maxHealth = 20,
     mana = \<lparr>white = 0, blue = 0, black = 0, red = 0, green = 0, colorless = 0\<rparr>,
     hand = [], battlefield = [], graveyard = [], library = [],
     p_abilities = [], experience = 0, level = 1\<rparr>"

definition initial_state :: game_state where
  "initial_state =
    \<lparr>gamePhase = Menu, currentTurn = 0, players = [], currentBoss = None,
     currentEncounter = None, location = None, inventory = [], quests = [],
     defeatedBosses = [],
     gameSettings = \<lparr>autoTapLands = False, showCardPreviews = True,
                     soundVolume = 50, difficulty = ''normal''\<rparr>\<rparr>"

text \<open>The constructor followed by \<open>initializeGameData\<close>.\<close>

definition new_store :: store where
  "new_store =
    \<lparr>state = initial_state,
     gameData = \<lparr>bosses = default_bosses, encounters = [], playerCards = [],
                 customContent = []\<rparr>,
     observers = [], notified = []\<rparr>"

subsection \<open>Observers\<close>

definition subscribe :: "nat \<Rightarrow> store \<Rightarrow> store" where
  "subscribe callback s = s\<lparr>observers := observers s @ [callback]\<rparr>"

definition unsubscribe :: "nat \<Rightarrow> store \<Rightarrow> store" where
  "unsubscribe callback s =
     s\<lparr>observers := filter (\<lambda>obs. obs \<noteq> callback) (observers s)\<rparr>"

text \<open>\<open>this.observers.forEach(callback => callback(this.state, change))\<close>.\<close>

definition notifyObservers :: "change \<Rightarrow> store \<Rightarrow> store" where
  "notifyObservers c s =
     s\<lparr>notified := notified s @ map (\<lambda>callback. (callback, c)) (observers s)\<rparr>"

text \<open>
  \<open>updateState(updates)\<close>: the merge \<open>{...this.state, ...updates}\<close> is the function
  \<open>updates\<close> on the state record; then every observer is notified of a
  \<open>state_update\<close>.
\<close>

definition updateState :: "(game_state \<Rightarrow> game_state) \<Rightarrow> store \<Rightarrow> store" where
  "updateState updates s =
     (let previousState = state s;
          s1 = s\<lparr>state := updates (state s)\<rparr>
      in notifyObservers (StateUpdate previousState (state s1)) s1)"

subsection \<open>Starting, saving, loading, resetting\<close>

text \<open>Decimal rendering of a number inside a template literal.\<close>

fun string_of_nat :: "nat \<Rightarrow> string" where
  "string_of_nat n =
     (if n < 10 then [''0123456789'' ! n]
      else string_of_nat (n div 10) @ [''0123456789'' ! (n mod 10)])"

text \<open>
  \<open>options.playerNames?.[i] || `Player ${i + 1}`\<close>: the default is taken when the list
  is absent, too short, or holds the empty string at \<open>i\<close>.
\<close>

definition playerNameAt :: "string list option \<Rightarrow> nat \<Rightarrow> string" where
  "playerNameAt names i =
     (case names of
        None \<Rightarrow> ''Player '' @ string_of_nat (i + 1)
      | Some ns \<Rightarrow>
          if i < length ns \<and> ns ! i \<noteq> [] then ns ! i
          else ''Player '' @ string_of_nat (i + 1))"

text \<open>
  \<open>options.playerCount ? Array.from({length: options.playerCount}, ...) : [...]\<close>:
  an absent count and the count 0 are falsy; a negative length gives the empty array.
\<close>

definition newPlayers :: "options \<Rightarrow> player list" where
  "newPlayers opts =
     (case playerCount opts of
        None \<Rightarrow> [defaultPlayer\<lparr>p_id := ''player-1'', p_name := ''Player 1''\<rparr>]
      | Some n \<Rightarrow>
          if n = 0 then [defaultPlayer\<lparr>p_id := ''player-1'', p_name := ''Player 1''\<rparr>]
          else map (\<lambda>i. defaultPlayer\<lparr>p_id := ''player-'' @ string_of_nat (i + 1),
                                      p_name := playerNameAt (playerNames opts) i\<rparr>)
                   [0..<nat n])"

definition startNewGame :: "options \<Rightarrow> store \<Rightarrow> store" where
  "startNewGame opts s =
     notifyObservers (GameStarted opts)
       (updateState
          (\<lambda>st. st\<lparr>gamePhase := Playing, currentTurn := 1, players := newPlayers opts,
                    currentBoss := None, currentEncounter := None,
                    location := Some ''Starting Village'', inventory := [],
                    quests := [], defeatedBosses := []\<rparr>) s)"

text \<open>\<open>startNewGame()\<close> with the default argument \<open>{}\<close>.\<close>

definition no_options :: options where
  "no_options = \<lparr>playerCount = None, playerNames = None\<rparr>"

text \<open>
  \<open>loadGame(saveData)\<close>: \<open>None\<close> is a falsy argument. The state and the game data
  are replaced by shallow copies of the record's.
\<close>

definition loadGame :: "save_data option \<Rightarrow> store \<Rightarrow> error + store" where
  "loadGame saveData s =
     (case saveData of
        None \<Rightarrow> Inl InvalidSaveData
      | Some sd \<Rightarrow>
          (case sd_state sd of
             None \<Rightarrow> Inl InvalidSaveData
           | Some st \<Rightarrow>
               Inr (notifyObservers (GameLoaded sd)
                      (s\<lparr>state := st, gameData := sd_gameData sd\<rparr>))))"

text \<open>
  \<open>saveGame()\<close>; \<open>now\<close> is the value of \<open>Date.now()\<close>. Here the record holds the
  state and the game data as values; the objects that the record shares with the store
  are modelled in the section on shared objects below.
\<close>

definition saveGame :: "nat \<Rightarrow> store \<Rightarrow> save_data \<times> store" where
  "saveGame now s =
     (let saveData = \<lparr>version = ''1.0.0'', timestamp = now,
                       sd_state = Some (state s), sd_gameData = gameData s\<rparr>
      in (saveData, notifyObservers (GameSaved saveData) s))"

definition resetGame :: "store \<Rightarrow> store" where
  "resetGame s =
     notifyObservers GameReset
       (s\<lparr>state :=
            \<lparr>gamePhase = Menu, currentTurn = 0, players = [], currentBoss = None,
             currentEncounter = None, location = None, inventory = [], quests = [],
             defeatedBosses = [], gameSettings = gameSettings (state s)\<rparr>,
          gameData :=
            (gameData s)\<lparr>bosses :=
               map (\<lambda>boss. boss\<lparr>defeated := False, health := maxHealth boss\<rparr>)
                   (bosses (gameData s))\<rparr>\<rparr>)"

subsection \<open>Encounters and bosses\<close>

text \<open>\<open>Array.prototype.find\<close> and \<open>findIndex\<close>: the first element that satisfies the test.\<close>

fun find_first :: "('a \<Rightarrow> bool) \<Rightarrow> 'a list \<Rightarrow> 'a option" where
  "find_first P [] = None"
| "find_first P (x # xs) = (if P x then Some x else find_first P xs)"

fun findIndex :: "('a \<Rightarrow> bool) \<Rightarrow> 'a list \<Rightarrow> nat option" where
  "findIndex P [] = None"
| "findIndex P (x # xs) =
     (if P x then Some 0 else map_option Suc (findIndex P xs))"

text \<open>The argument of \<open>startBossEncounter\<close>: a boss id (a string) or a boss object.\<close>

datatype boss_ref = BossId string | BossObject boss

definition startBossEncounter :: "boss_ref \<Rightarrow> store \<Rightarrow> error + store" where
  "startBossEncounter boss s =
     (let bossData =
            (case boss of
               BossId i \<Rightarrow> find_first (\<lambda>b. b_id b = i) (bosses (gameData s))
             | BossObject b \<Rightarrow> Some b)
      in case bossData of
           None \<Rightarrow> Inl BossNotFound
         | Some bd \<Rightarrow>
             Inr (notifyObservers (BossEncounterStarted bd)
                    (updateState
                       (\<lambda>st. st\<lparr>gamePhase := Boss, currentBoss := Some bd,
                                 currentEncounter := None\<rparr>) s)))"

definition startEncounter :: "encounter \<Rightarrow> store \<Rightarrow> store" where
  "startEncounter enc s =
     notifyObservers (EncounterStarted enc)
       (updateState
          (\<lambda>st. st\<lparr>gamePhase := Encounter, currentEncounter := Some enc,
                    currentBoss := None\<rparr>) s)"

text \<open>
  \<open>defeatBoss()\<close>: the catalogue boss found by \<open>findIndex\<close> is marked in place, then
  \<open>every(boss => boss.defeated)\<close> decides the phase.
\<close>

definition markDefeated :: "string \<Rightarrow> boss list \<Rightarrow> boss list" where
  "markDefeated bid bs =
     (case findIndex (\<lambda>b. b_id b = bid) bs of
        None \<Rightarrow> bs
      | Some bossIndex \<Rightarrow> bs[bossIndex := (bs ! bossIndex)\<lparr>defeated := True\<rparr>])"

definition defeatBoss :: "store \<Rightarrow> error + store" where
  "defeatBoss s =
     (case currentBoss (state s) of
        None \<Rightarrow> Inl NoActiveBossToDefeat
      | Some defeatedBoss \<Rightarrow>
          (let newDefeatedBosses = defeatedBosses (state s) @ [b_id defeatedBoss];
               s1 = s\<lparr>gameData := (gameData s)\<lparr>bosses :=
                         markDefeated (b_id defeatedBoss) (bosses (gameData s))\<rparr>\<rparr>;
               allBossesDefeated = list_all defeated (bosses (gameData s1))
           in Inr (notifyObservers (BossDefeated defeatedBoss allBossesDefeated)
                     (updateState
                        (\<lambda>st. st\<lparr>gamePhase := (if allBossesDefeated then Victory else Playing),
                                  currentBoss := None,
                                  defeatedBosses := newDefeatedBosses\<rparr>) s1))))"

text \<open>
  \<open>damageBoss(damage)\<close>: \<open>boss.health = Math.max(0, boss.health - damage)\<close> writes into
  the object that \<open>this.state.currentBoss\<close> refers to, before anything else happens;
  \<open>damagedBoss\<close> is the boss after that assignment.
\<close>

definition damagedBoss :: "int \<Rightarrow> boss \<Rightarrow> boss" where
  "damagedBoss damage b = b\<lparr>health := max 0 (health b - damage)\<rparr>"

definition damageBoss :: "int \<Rightarrow> store \<Rightarrow> error + store" where
  "damageBoss damage s =
     (case currentBoss (state s) of
        None \<Rightarrow> Inl NoActiveBossToDamage
      | Some b \<Rightarrow>
          (let boss = damagedBoss damage b;
               s1 = s\<lparr>state := (state s)\<lparr>currentBoss := Some boss\<rparr>\<rparr>
           in if health boss \<le> 0 then defeatBoss s1
              else Inr (notifyObservers (BossDamaged damage boss)
                          (updateState (\<lambda>st. st\<lparr>currentBoss := Some boss\<rparr>) s1))))"

text \<open>
  Defeating a catalogue boss: the encounter is started by id and \<open>defeatBoss()\<close> is
  called; \<open>defeatAll\<close> does so for a sequence of ids, stopping at the first error.
\<close>

definition defeatById :: "string \<Rightarrow> store \<Rightarrow> error + store" where
  "defeatById bid s =
     (case startBossEncounter (BossId bid) s of
        Inl e \<Rightarrow> Inl e
      | Inr s1 \<Rightarrow> defeatBoss s1)"

fun defeatAll :: "string list \<Rightarrow> store \<Rightarrow> error + store" where
  "defeatAll [] s = Inr s"
| "defeatAll (bid # rest) s =
     (case defeatById bid s of
        Inl e \<Rightarrow> Inl e
      | Inr s1 \<Rightarrow> defeatAll rest s1)"

text \<open>A store in a boss fight: a new store after \<open>startBossEncounter('vorthak-destroyer')\<close>.\<close>

definition boss_fight :: store where
  "boss_fight =
     (case startBossEncounter (BossId ''vorthak-destroyer'') new_store of
        Inl e \<Rightarrow> new_store
      | Inr s \<Rightarrow> s)"

text \<open>
  A new game started after a won game: all three bosses are defeated on a new store and
  \<open>startNewGame()\<close> is called, as the new-game button does, without \<open>resetGame()\<close>.
\<close>

definition won_store :: store where
  "won_store =
     (case defeatAll [''vorthak-destroyer'', ''malachar-corrupted'', ''nethys-ancient'']
             new_store of
        Inl e \<Rightarrow> new_store
      | Inr s \<Rightarrow> s)"

definition second_game :: store where
  "second_game = startNewGame no_options won_store"

subsection \<open>Cards, inventory, quests, location, settings\<close>

definition addCardToHand :: "string \<Rightarrow> card \<Rightarrow> store \<Rightarrow> store" where
  "addCardToHand playerId c s =
     notifyObservers (CardAddedToHand playerId c)
       (updateState
          (\<lambda>st. st\<lparr>players :=
             map (\<lambda>p. if p_id p = playerId then p\<lparr>hand := hand p @ [c]\<rparr> else p)
                 (players st)\<rparr>) s)"

text \<open>
  \<open>player[zone]\<close> and the computed property \<open>[zone]: targetZone\<close>, for the four card
  sequences of a player. In the object literal \<open>{...player, hand, [zone]: targetZone}\<close>
  the later property wins, so for the zone \<open>hand\<close> the filtered hand is overwritten.
\<close>

fun getZone :: "zone \<Rightarrow> player \<Rightarrow> card list" where
  "getZone Hand p = hand p"
| "getZone Battlefield p = battlefield p"
| "getZone Graveyard p = graveyard p"
| "getZone Library p = library p"

fun setZone :: "zone \<Rightarrow> card list \<Rightarrow> player \<Rightarrow> player" where
  "setZone Hand cs p = p\<lparr>hand := cs\<rparr>"
| "setZone Battlefield cs p = p\<lparr>battlefield := cs\<rparr>"
| "setZone Graveyard cs p = p\<lparr>graveyard := cs\<rparr>"
| "setZone Library cs p = p\<lparr>library := cs\<rparr>"

definition playCardOf :: "card \<Rightarrow> zone \<Rightarrow> player \<Rightarrow> player" where
  "playCardOf c z p =
     (let hand' = filter (\<lambda>x. card_id x \<noteq> card_id c) (hand p);
          targetZone = getZone z p @ [c]
      in setZone z targetZone (p\<lparr>hand := hand'\<rparr>))"

definition playCard :: "string \<Rightarrow> card \<Rightarrow> zone \<Rightarrow> store \<Rightarrow> store" where
  "playCard playerId c z s =
     notifyObservers (CardPlayed playerId c z)
       (updateState
          (\<lambda>st. st\<lparr>players :=
             map (\<lambda>p. if p_id p = playerId then playCardOf c z p else p)
                 (players st)\<rparr>) s)"

text \<open>
  \<open>addToInventory\<close> and \<open>addQuest\<close> build the new id from \<open>Date.now()\<close> and
  \<open>Math.random()\<close>; the id they obtain is the parameter \<open>newId\<close>. The change carries
  the argument as it was passed.
\<close>

definition addToInventory :: "string \<Rightarrow> item \<Rightarrow> store \<Rightarrow> store" where
  "addToInventory newId it s =
     notifyObservers (ItemAddedToInventory it)
       (updateState (\<lambda>st. st\<lparr>inventory := inventory st @ [it\<lparr>i_id := newId\<rparr>]\<rparr>) s)"

definition addQuest :: "string \<Rightarrow> quest \<Rightarrow> store \<Rightarrow> store" where
  "addQuest newId q s =
     notifyObservers (QuestAdded q)
       (updateState
          (\<lambda>st. st\<lparr>quests :=
             quests st @ [q\<lparr>q_id := newId, q_status := Active, q_progress := 0\<rparr>]\<rparr>) s)"

definition updateQuestProgress :: "string \<Rightarrow> int \<Rightarrow> store \<Rightarrow> store" where
  "updateQuestProgress questId progress s =
     notifyObservers (QuestProgressUpdated questId progress)
       (updateState
          (\<lambda>st. st\<lparr>quests :=
             map (\<lambda>q. if q_id q = questId
                       then q\<lparr>q_progress := progress,
                              q_status := (if progress \<ge> 100 then Completed else Active)\<rparr>
                       else q)
                 (quests st)\<rparr>) s)"

definition changeLocation :: "string \<Rightarrow> store \<Rightarrow> store" where
  "changeLocation loc s =
     notifyObservers (LocationChanged loc)
       (updateState (\<lambda>st. st\<lparr>location := Some loc\<rparr>) s)"

text \<open>
  \<open>updateSettings(settings)\<close>: the partial object merged over the current settings is
  the function \<open>merge\<close> on the settings record.
\<close>

definition updateSettings :: "(settings \<Rightarrow> settings) \<Rightarrow> store \<Rightarrow> store" where
  "updateSettings merge s =
     (let gameSettings' = merge (gameSettings (state s))
      in notifyObservers (SettingsUpdated gameSettings')
           (updateState (\<lambda>st. st\<lparr>gameSettings := gameSettings'\<rparr>) s))"

subsection \<open>Notifications made by an operation\<close>

text \<open>The \<open>type\<close> property of a change object.\<close>

fun changeType :: "change \<Rightarrow> string" where
  "changeType (StateUpdate previous current) = ''state_update''"
| "changeType (GameStarted opts) = ''game_started''"
| "changeType (GameLoaded sd) = ''game_loaded''"
| "changeType (GameSaved sd) = ''game_saved''"
| "changeType (BossEncounterStarted b) = ''boss_encounter_started''"
| "changeType (EncounterStarted e) = ''encounter_started''"
| "changeType (BossDamaged d b) = ''boss_damaged''"
| "changeType (BossDefeated b v) = ''boss_defeated''"
| "changeType (CardAddedToHand pid c) = ''card_added_to_hand''"
| "changeType (CardPlayed pid c z) = ''card_played''"
| "changeType (ItemAddedToInventory it) = ''item_added_to_inventory''"
| "changeType (QuestAdded q) = ''quest_added''"
| "changeType (QuestProgressUpdated qid pr) = ''quest_progress_updated''"
| "changeType (LocationChanged loc) = ''location_changed''"
| "changeType (SettingsUpdated st) = ''settings_updated''"
| "changeType GameReset = ''game_reset''"

text \<open>
  \<open>delivered s s'\<close> lists, in order, the callback invocations made between the store
  \<open>s\<close> and the later store \<open>s'\<close>, each as the callback and the type of the change it
  received; \<open>toAll ty s\<close> is one invocation of every subscribed callback, in
  subscription order, with a change of type \<open>ty\<close>.
\<close>

definition delivered :: "store \<Rightarrow> store \<Rightarrow> (nat \<times> string) list" where
  "delivered s s' =
     map (\<lambda>e. (fst e, changeType (snd e))) (drop (length (notified s)) (notified s'))"

definition toAll :: "string \<Rightarrow> store \<Rightarrow> (nat \<times> string) list" where
  "toAll ty s = map (\<lambda>callback. (callback, ty)) (observers s)"

text \<open>Sample data: a quest, and a new store with one subscribed callback.\<close>

definition sample_quest :: quest where
  "sample_quest = \<lparr>q_id = '''', q_title = ''The Light Quest'',
                    q_objective = ''Investigate the ruins'', q_status = Active,
                    q_progress = 0\<rparr>"

definition watched_store :: store where
  "watched_store = subscribe 7 new_store"

subsection \<open>Counting a card id in a zone; sample games\<close>

definition countId :: "string \<Rightarrow> card list \<Rightarrow> nat" where
  "countId cid cs = length (filter (\<lambda>x. card_id x = cid) cs)"

definition bolt :: card where
  "bolt = \<lparr>card_id = ''bolt-1'', card_name = ''Lightning Bolt''\<rparr>"

text \<open>
  \<open>replay_store\<close> is reached through the store's operations alone: a new game, the card
  added to the hand and played to the battlefield, and a second copy of the card (same
  id) added to the hand.
\<close>

definition one_player_game :: store where
  "one_player_game = startNewGame no_options new_store"

definition replay_store :: store where
  "replay_store =
     addCardToHand ''player-1'' bolt
       (playCard ''player-1'' bolt Battlefield
          (addCardToHand ''player-1'' bolt one_player_game))"

section \<open>Objects shared between the store and a saved record\<close>

text \<open>
  \<open>saveGame\<close> copies \<open>this.state\<close> and \<open>this.gameData\<close> one level deep, so the record
  it returns refers to the same boss objects as the store, and \<open>damageBoss\<close> and
  \<open>defeatBoss\<close> write into these objects in place. This second model of the store makes
  the sharing explicit: boss objects live in the map \<open>objects\<close> from references to
  their contents, and the state, the catalogue and a saved record hold references. All
  other values of the state are only ever replaced by new ones and stay values. Each
  operation is the one of the first model with this change; a notification is recorded
  as the callback and the type of the change.
\<close>

type_synonym ref = nat

record obj_state =
  o_gamePhase :: phase
  o_currentTurn :: int
  o_players :: "player list"
  o_currentBoss :: "ref option"
  o_currentEncounter :: "encounter option"
  o_location :: "string option"
  o_inventory :: "item list"
  o_quests :: "quest list"
  o_defeatedBosses :: "string list"
  o_gameSettings :: settings

record obj_data =
  o_bosses :: "ref list"
  o_encounters :: "encounter list"
  o_playerCards :: "card list"
  o_customContent :: "string list"

record obj_save =
  o_version :: string
  o_timestamp :: nat
  o_state :: "obj_state option"
  o_gameData :: obj_data

record world =
  objects :: "ref \<Rightarrow> boss"
  allocated :: nat
  w_state :: obj_state
  w_gameData :: obj_data
  w_observers :: "nat list"
  w_notified :: "(nat \<times> string) list"

text \<open>
  \<open>allocated\<close> is the number of objects created so far; references from there on are
  not in use and hold \<open>unallocated\<close>.
\<close>

definition unallocated :: boss where
  "unallocated =
    \<lparr>b_id = '''', b_name = '''', health = 0, maxHealth = 0, b_abilities = [],
     weaknesses = [], resistances = [], b_difficulty = 0, defeated = False,
     b_location = ''''\<rparr>"

definition new_world :: world where
  "new_world =
    \<lparr>objects = (\<lambda>r. if r < length default_bosses then default_bosses ! r else unallocated),
     allocated = length default_bosses,
     w_state =
       \<lparr>o_gamePhase = Menu, o_currentTurn = 0, o_players = [], o_currentBoss = None,
        o_currentEncounter = None, o_location = None, o_inventory = [], o_quests = [],
        o_defeatedBosses = [], o_gameSettings = gameSettings initial_state\<rparr>,
     w_gameData = \<lparr>o_bosses = [0..<length default_bosses], o_encounters = [],
                   o_playerCards = [], o_customContent = []\<rparr>,
     w_observers = [], w_notified = []\<rparr>"

definition notifyObserversObj :: "string \<Rightarrow> world \<Rightarrow> world" where
  "notifyObserversObj ty w =
     w\<lparr>w_notified := w_notified w @ map (\<lambda>callback. (callback, ty)) (w_observers w)\<rparr>"

definition updateStateObj :: "(obj_state \<Rightarrow> obj_state) \<Rightarrow> world \<Rightarrow> world" where
  "updateStateObj updates w =
     notifyObserversObj ''state_update'' (w\<lparr>w_state := updates (w_state w)\<rparr>)"

text \<open>The copy \<open>{ ...bossData }\<close> is a new object.\<close>

definition newObject :: "boss \<Rightarrow> world \<Rightarrow> ref \<times> world" where
  "newObject b w =
     (allocated w,
      w\<lparr>objects := (objects w)(allocated w := b), allocated := allocated w + 1\<rparr>)"

definition startBossEncounterObj :: "boss_ref \<Rightarrow> world \<Rightarrow> error + world" where
  "startBossEncounterObj boss w =
     (let bossData =
            (case boss of
               BossId i \<Rightarrow>
                 map_option (objects w)
                   (find_first (\<lambda>r. b_id (objects w r) = i) (o_bosses (w_gameData w)))
             | BossObject b \<Rightarrow> Some b)
      in case bossData of
           None \<Rightarrow> Inl BossNotFound
         | Some bd \<Rightarrow>
             (case newObject bd w of
                (copy, w1) \<Rightarrow>
                  Inr (notifyObserversObj ''boss_encounter_started''
                         (updateStateObj
                            (\<lambda>st. st\<lparr>o_gamePhase := Boss, o_currentBoss := Some copy,
                                      o_currentEncounter := None\<rparr>) w1))))"

definition defeatBossObj :: "world \<Rightarrow> error + world" where
  "defeatBossObj w =
     (case o_currentBoss (w_state w) of
        None \<Rightarrow> Inl NoActiveBossToDefeat
      | Some defeatedBoss \<Rightarrow>
          (let bid = b_id (objects w defeatedBoss);
               newDefeatedBosses = o_defeatedBosses (w_state w) @ [bid];
               catalogue = o_bosses (w_gameData w);
               w1 = (case findIndex (\<lambda>r. b_id (objects w r) = bid) catalogue of
                       None \<Rightarrow> w
                     | Some bossIndex \<Rightarrow>
                         w\<lparr>objects := (objects w)
                              (catalogue ! bossIndex :=
                                 (objects w (catalogue ! bossIndex))\<lparr>defeated := True\<rparr>)\<rparr>);
               allBossesDefeated = list_all (\<lambda>r. defeated (objects w1 r)) catalogue
           in Inr (notifyObserversObj ''boss_defeated''
                     (updateStateObj
                        (\<lambda>st. st\<lparr>o_gamePhase := (if allBossesDefeated then Victory else Playing),
                                  o_currentBoss := None,
                                  o_defeatedBosses := newDefeatedBosses\<rparr>) w1))))"

definition damageBossObj :: "int \<Rightarrow> world \<Rightarrow> error + world" where
  "damageBossObj damage w =
     (case o_currentBoss (w_state w) of
        None \<Rightarrow> Inl NoActiveBossToDamage
      | Some boss \<Rightarrow>
          (let w1 = w\<lparr>objects := (objects w)(boss := damagedBoss damage (objects w boss))\<rparr>
           in if health (objects w1 boss) \<le> 0 then defeatBossObj w1
              else Inr (notifyObserversObj ''boss_damaged''
                          (updateStateObj (\<lambda>st. st\<lparr>o_currentBoss := Some boss\<rparr>) w1))))"

definition saveGameObj :: "nat \<Rightarrow> world \<Rightarrow> obj_save \<times> world" where
  "saveGameObj now w =
     (\<lparr>o_version = ''1.0.0'', o_timestamp = now, o_state = Some (w_state w),
       o_gameData = w_gameData w\<rparr>,
      notifyObserversObj ''game_saved'' w)"

definition loadGameObj :: "obj_save option \<Rightarrow> world \<Rightarrow> error + world" where
  "loadGameObj saveData w =
     (case saveData of
        None \<Rightarrow> Inl InvalidSaveData
      | Some sd \<Rightarrow>
          (case o_state sd of
             None \<Rightarrow> Inl InvalidSaveData
           | Some st \<Rightarrow>
               Inr (notifyObserversObj ''game_loaded''
                      (w\<lparr>w_state := st, w_gameData := o_gameData sd\<rparr>))))"

text \<open>
  What the store shows: the state and the catalogue with every reference replaced by the
  contents of its object.
\<close>

definition viewState :: "world \<Rightarrow> game_state" where
  "viewState w =
    \<lparr>gamePhase = o_gamePhase (w_state w), currentTurn = o_currentTurn (w_state w),
     players = o_players (w_state w),
     currentBoss = map_option (objects w) (o_currentBoss (w_state w)),
     currentEncounter = o_currentEncounter (w_state w),
     location = o_location (w_state w), inventory = o_inventory (w_state w),
     quests = o_quests (w_state w), defeatedBosses = o_defeatedBosses (w_state w),
     gameSettings = o_gameSettings (w_state w)\<rparr>"

definition viewBosses :: "world \<Rightarrow> boss list" where
  "viewBosses w = map (objects w) (o_bosses (w_gameData w))"

text \<open>
  A boss encounter is started, the game is saved, the boss is damaged, and the saved
  record is loaded; the result is the store right after saving and the store after
  loading.
\<close>

definition save_damage_load :: "boss_ref \<Rightarrow> int \<Rightarrow> world \<Rightarrow> error + world \<times> world" where
  "save_damage_load boss damage w =
     (case startBossEncounterObj boss w of
        Inl e \<Rightarrow> Inl e
      | Inr w1 \<Rightarrow>
          (case saveGameObj 0 w1 of
             (saveData, w2) \<Rightarrow>
               (case damageBossObj damage w2 of
                  Inl e \<Rightarrow> Inl e
                | Inr w3 \<Rightarrow>
                    (case loadGameObj (Some saveData) w3 of
                       Inl e \<Rightarrow> Inl e
                     | Inr w4 \<Rightarrow> Inr (w2, w4)))))"

section \<open>AI service (class AIService)\<close>

text \<open>
  The trait values and thresholds are decimal literals that the code only compares with
  each other; they are modelled by the rationals they denote.
\<close>

record personality_config =
  creativity :: rat
  danger :: rat
  humor :: rat
  description :: string

text \<open>
  Of the service's fields, \<open>this.personality\<close>; \<open>console\<close> records the calls of
  \<open>console.log\<close> and \<open>console.warn\<close>.
\<close>

datatype console_entry = Log string | Warn string

record ai_service =
  personality :: string
  console :: "console_entry list"

definition personalities :: "(string \<times> personality_config) list" where
  "personalities =
    [(''default'', \<lparr>creativity = 7/10, danger = 5/10, humor = 3/10,
        description = ''Balanced gameplay with moderate challenge''\<rparr>),
     (''cautious'', \<lparr>creativity = 5/10, danger = 3/10, humor = 2/10,
        description = ''Safe, predictable encounters with lower difficulty''\<rparr>),
     (''experimental'', \<lparr>creativity = 9/10, danger = 6/10, humor = 5/10,
        description = ''Creative, unpredictable scenarios with unique twists''\<rparr>),
     (''reckless'', \<lparr>creativity = 8/10, danger = 9/10, humor = 4/10,
        description = ''High-risk, high-reward encounters with intense challenges''\<rparr>)]"

text \<open>
  \<open>this.personalities\<close> is an object literal, so \<open>this.personalities[key]\<close> also finds
  the properties inherited from \<open>Object.prototype\<close>, all of them truthy.
\<close>

definition objectPrototypeKeys :: "string list" where
  "objectPrototypeKeys =
    [''constructor'', ''__defineGetter__'', ''__defineSetter__'', ''hasOwnProperty'',
     ''__lookupGetter__'', ''__lookupSetter__'', ''isPrototypeOf'',
     ''propertyIsEnumerable'', ''toString'', ''valueOf'', ''__proto__'',
     ''toLocaleString'']"

text \<open>The test \<open>if (this.personalities[personality])\<close>.\<close>

definition personalityIsTruthy :: "string \<Rightarrow> bool" where
  "personalityIsTruthy key =
     (map_of personalities key \<noteq> None \<or> key \<in> set objectPrototypeKeys)"

definition new_ai_service :: ai_service where
  "new_ai_service = \<lparr>personality = ''default'', console = []\<rparr>"

definition setPersonality :: "string \<Rightarrow> ai_service \<Rightarrow> ai_service" where
  "setPersonality key a =
     (if personalityIsTruthy key
      then a\<lparr>personality := key,
             console := console a @ [Log (''AI Personality set to: '' @ key)]\<rparr>
      else a\<lparr>personality := ''default'',
             console := console a
               @ [Warn (''Unknown personality: '' @ key @ '', using default'')]\<rparr>)"

definition getPersonality :: "ai_service \<Rightarrow> personality_config option" where
  "getPersonality a = map_of personalities (personality a)"

record quest_giver =
  qg_name :: string
  qg_type :: string
  trustworthy :: rat

definition questGivers :: "quest_giver list" where
  "questGivers =
    [\<lparr>qg_name = ''Elder Sage Meridian'', qg_type = ''wizard'', trustworthy = 9/10\<rparr>,
     \<lparr>qg_name = ''Captain Ironheart'', qg_type = ''warrior'', trustworthy = 8/10\<rparr>,
     \<lparr>qg_name = ''Mysterious Stranger'', qg_type = ''rogue'', trustworthy = 4/10\<rparr>,
     \<lparr>qg_name = ''Village Elder'', qg_type = ''civilian'', trustworthy = 95/100\<rparr>,
     \<lparr>qg_name = ''Shadowy Figure'', qg_type = ''unknown'', trustworthy = 3/10\<rparr>]"

text \<open>
  \<open>xs[i]\<close> is \<open>undefined\<close> (\<open>None\<close>) outside the array. \<open>randomIndex r n\<close> is
  \<open>Math.floor(Math.random() * n)\<close> where \<open>r\<close> is the value \<open>Math.random()\<close> returned, a
  number with \<open>0 \<le> r < 1\<close>.
\<close>

definition arrayAt :: "'a list \<Rightarrow> int \<Rightarrow> 'a option" where
  "arrayAt xs i = (if 0 \<le> i \<and> i < int (length xs) then Some (xs ! nat i) else None)"

definition randomIndex :: "rat \<Rightarrow> nat \<Rightarrow> int" where
  "randomIndex r n = \<lfloor>r * of_nat n\<rfloor>"

definition generateQuestGiver :: "personality_config \<Rightarrow> rat \<Rightarrow> quest_giver option" where
  "generateQuestGiver p r =
     (if danger p > 7/10
      then arrayAt questGivers (randomIndex r (length questGivers))
      else arrayAt (filter (\<lambda>qg. trustworthy qg > 7/10) questGivers) (randomIndex r 3))"

text \<open>The three catalogue entries with \<open>trustworthy > 0.7\<close>, in catalogue order.\<close>

definition trustedQuestGivers :: "quest_giver list" where
  "trustedQuestGivers =
    [\<lparr>qg_name = ''Elder Sage Meridian'', qg_type = ''wizard'', trustworthy = 9/10\<rparr>,
     \<lparr>qg_name = ''Captain Ironheart'', qg_type = ''warrior'', trustworthy = 8/10\<rparr>,
     \<lparr>qg_name = ''Village Elder'', qg_type = ''civilian'', trustworthy = 95/100\<rparr>]"

section \<open>Template generator (js/main.js, class PerchanceGenerator)\<close>

text \<open>
  The generator object: the map \<open>this.generators\<close> and the list \<open>this.history\<close> (its
  entries without their timestamp); the map \<open>this.variables\<close> is never read and is left
  out. \<open>Math.random()\<close> is an oracle \<open>random\<close>: its \<open>k\<close>-th call returns
  \<open>random k\<close>, a number in \<open>[0, 1)\<close>, and \<open>drawn\<close> counts the calls made so far.
\<close>

record generator =
  weight :: int
  items :: "string list"

record perchance =
  generators :: "string \<rightharpoonup> generator"
  history :: "(string \<times> string) list"
  drawn :: nat

datatype generator_error = GeneratorNotFound string

text \<open>\<open>addGenerator\<close> with a generator object that has both properties.\<close>

definition addGenerator :: "string \<Rightarrow> generator \<Rightarrow> perchance \<Rightarrow> perchance" where
  "addGenerator name gen g = g\<lparr>generators := (generators g)(name \<mapsto> gen)\<rparr>"

text \<open>
  \<open>selectRandomItem(items)\<close>: no random number is drawn for an empty array. With
  \<open>random k\<close> in \<open>[0, 1)\<close> the index \<open>Math.floor(Math.random() * items.length)\<close> lies
  within the array.
\<close>

definition selectRandomItem :: "(nat \<Rightarrow> rat) \<Rightarrow> string list \<Rightarrow> perchance \<Rightarrow> string \<times> perchance" where
  "selectRandomItem random its g =
     (if its = [] then (''Empty generator'', g)
      else (its ! nat (randomIndex (random (drawn g)) (length its)),
            g\<lparr>drawn := drawn g + 1\<rparr>))"

text \<open>
  \<open>generatorRegex.exec(result)\<close> for the global regular expression
  \<open>/\[([^\]]+)\]/g\<close>: the search starts at \<open>lastIndex\<close> and finds the leftmost \<open>[\<close>
  that is followed by at least one character other than \<open>]\<close> and then by \<open>]\<close>. The
  result is the index of the match and the captured name \<open>match[1]\<close>; \<open>match[0]\<close> is the
  name in brackets, and \<open>lastIndex\<close> becomes the index after the closing bracket.
\<close>

definition bracketName :: "string \<Rightarrow> string option" where
  "bracketName s =
     (let name = takeWhile (\<lambda>c. c \<noteq> CHR '']'') s;
          rest = dropWhile (\<lambda>c. c \<noteq> CHR '']'') s
      in if name = [] \<or> rest = [] then None else Some name)"

fun regexScan :: "string \<Rightarrow> nat \<Rightarrow> (nat \<times> string) option" where
  "regexScan [] i = None"
| "regexScan (c # cs) i =
     (if c = CHR ''[''
      then (case bracketName cs of
              Some name \<Rightarrow> Some (i, name)
            | None \<Rightarrow> regexScan cs (Suc i))
      else regexScan cs (Suc i))"

definition regexExec :: "string \<Rightarrow> nat \<Rightarrow> (nat \<times> string) option" where
  "regexExec text lastIndex = regexScan (drop lastIndex text) lastIndex"

text \<open>
  \<open>result.replace(match[0], replacement)\<close> with a string pattern: the first occurrence
  of the pattern in the whole string is replaced, and in the replacement \<open>$$\<close>, \<open>$&\<close>,
  \<open>$`\<close> and \<open>$'\<close> stand for a dollar sign, the matched text, the text before it and the
  text after it.
\<close>

fun splitAtFirst :: "string \<Rightarrow> string \<Rightarrow> (string \<times> string) option" where
  "splitAtFirst pat [] = (if pat = [] then Some ([], []) else None)"
| "splitAtFirst pat (c # cs) =
     (if take (length pat) (c # cs) = pat then Some ([], drop (length pat) (c # cs))
      else map_option (\<lambda>(pre, post). (c # pre, post)) (splitAtFirst pat cs))"

fun getSubstitution :: "string \<Rightarrow> string \<Rightarrow> string \<Rightarrow> string \<Rightarrow> string" where
  "getSubstitution matched pre post [] = []"
| "getSubstitution matched pre post [c] = [c]"
| "getSubstitution matched pre post (c # d # cs) =
     (if c = CHR ''$'' \<and> d = CHR ''$'' then CHR ''$'' # getSubstitution matched pre post cs
      else if c = CHR ''$'' \<and> d = CHR ''&'' then matched @ getSubstitution matched pre post cs
      else if c = CHR ''$'' \<and> d = CHR 0x60 then pre @ getSubstitution matched pre post cs
      else if c = CHR ''$'' \<and> d = CHR 0x27 then post @ getSubstitution matched pre post cs
      else c # getSubstitution matched pre post (d # cs))"

definition stringReplace :: "string \<Rightarrow> string \<Rightarrow> string \<Rightarrow> string" where
  "stringReplace text pat replacement =
     (case splitAtFirst pat text of
        None \<Rightarrow> text
      | Some (pre, post) \<Rightarrow>
          pre @ getSubstitution pat pre post replacement @ post)"

text \<open>
  \<open>generate\<close> and \<open>processNestedGenerators\<close> call each other. The first argument bounds
  the number of nested calls of \<open>generate\<close> (the depth of the call stack); the result
  \<open>None\<close> says that the call did not return within that depth. \<open>Some (Inl e)\<close> is a
  thrown error, \<open>Some (Inr (result, g))\<close> the returned string and the generator object
  afterwards. The loop of \<open>processNestedGenerators\<close> carries the regular expression's
  \<open>lastIndex\<close> and the counter \<open>iterations\<close>; \<open>recordHistory\<close> is
  \<open>options.recordHistory !== false\<close>.
\<close>

function generate ::
    "nat \<Rightarrow> (nat \<Rightarrow> rat) \<Rightarrow> string \<Rightarrow> bool \<Rightarrow> perchance
       \<Rightarrow> (generator_error + string \<times> perchance) option"
  and processNestedGenerators ::
    "nat \<Rightarrow> (nat \<Rightarrow> rat) \<Rightarrow> string \<Rightarrow> nat \<Rightarrow> nat \<Rightarrow> perchance
       \<Rightarrow> (generator_error + string \<times> perchance) option"
where
  "generate 0 random generatorName recordHistory g = None"
| "generate (Suc depth) random generatorName recordHistory g =
     (case generators g generatorName of
        None \<Rightarrow> Some (Inl (GeneratorNotFound generatorName))
      | Some gen \<Rightarrow>
          (case selectRandomItem random (items gen) g of
             (item, g1) \<Rightarrow>
               (case processNestedGenerators depth random item 0 0 g1 of
                  None \<Rightarrow> None
                | Some (Inl e) \<Rightarrow> Some (Inl e)
                | Some (Inr (result, g2)) \<Rightarrow>
                    Some (Inr (result,
                      if recordHistory
                      then g2\<lparr>history := history g2 @ [(generatorName, result)]\<rparr>
                      else g2)))))"
| "processNestedGenerators depth random result lastIndex iterations g =
     (case regexExec result lastIndex of
        None \<Rightarrow> Some (Inr (result, g))
      | Some (index, generatorName) \<Rightarrow>
          if iterations < 10 then
            (if generators g generatorName \<noteq> None then
               (case generate depth random generatorName False g of
                  None \<Rightarrow> None
                | Some (Inl e) \<Rightarrow> Some (Inl e)
                | Some (Inr (replacement, g1)) \<Rightarrow>
                    processNestedGenerators depth random
                      (stringReplace result (''['' @ generatorName @ '']'') replacement)
                      0 (iterations + 1) g1)
             else processNestedGenerators depth random result
                    (index + length generatorName + 2) (iterations + 1) g)
          else Some (Inr (result, g)))"
  by pat_completeness auto
termination
  by (relation "measure (\<lambda>x. case x of
          Inl (depth, random, generatorName, recordHistory, g) \<Rightarrow> 12 * depth
        | Inr (depth, random, result, lastIndex, iterations, g) \<Rightarrow>
            12 * depth + 1 + (10 - iterations))") auto

text \<open>
  Sample generator tables: one generator whose only item refers to the generator itself,
  and a pair of generators without a cycle.
\<close>

definition self_generators :: perchance where
  "self_generators =
     addGenerator ''self'' \<lparr>weight = 1, items = [''[self]'']\<rparr>
       \<lparr>generators = Map.empty, history = [], drawn = 0\<rparr>"

definition door_generators :: perchance where
  "door_generators =
     addGenerator ''door'' \<lparr>weight = 1, items = [''a [color] door to [place]'']\<rparr>
       (addGenerator ''color'' \<lparr>weight = 1, items = [''red'', ''blue'']\<rparr>
          \<lparr>generators = Map.empty, history = [], drawn = 0\<rparr>)"

section \<open>Properties of the store\<close>

lemma state_notifyObservers: "state (notifyObservers c s) = state s"
  by (simp add: notifyObservers_def)

lemma gameData_notifyObservers: "gameData (notifyObservers c s) = gameData s"
  by (simp add: notifyObservers_def)

lemma observers_notifyObservers: "observers (notifyObservers c s) = observers s"
  by (simp add: notifyObservers_def)

lemma state_updateState: "state (updateState f s) = f (state s)"
  by (simp add: updateState_def Let_def notifyObservers_def)

lemma gameData_updateState: "gameData (updateState f s) = gameData s"
  by (simp add: updateState_def Let_def notifyObservers_def)

lemma observers_updateState: "observers (updateState f s) = observers s"
  by (simp add: updateState_def Let_def notifyObservers_def)

text \<open>
  C7. \<open>resetGame()\<close> keeps the settings record as it was, empties players, inventory,
  quests and the defeated-boss list, and leaves every catalogue boss (the same bosses,
  in the same order) with \<open>health = maxHealth\<close> and \<open>defeated = false\<close>.
\<close>

theorem resetGame_preserves_settings_and_restores_bosses:
  "gameSettings (state (resetGame s)) = gameSettings (state s)
   \<and> players (state (resetGame s)) = []
   \<and> inventory (state (resetGame s)) = []
   \<and> quests (state (resetGame s)) = []
   \<and> defeatedBosses (state (resetGame s)) = []
   \<and> list_all (\<lambda>boss. health boss = maxHealth boss \<and> \<not> defeated boss)
        (bosses (gameData (resetGame s)))
   \<and> map b_id (bosses (gameData (resetGame s))) = map b_id (bosses (gameData s))
   \<and> map maxHealth (bosses (gameData (resetGame s))) = map maxHealth (bosses (gameData s))"
  by (simp add: resetGame_def state_notifyObservers gameData_notifyObservers
        list_all_iff o_def)

text \<open>
  C9. \<open>startNewGame\<close> called with no argument, or with options that have no
  \<open>playerCount\<close>, creates exactly one player, with id \<open>player-1\<close> and name
  \<open>Player 1\<close>, sets the phase to \<open>playing\<close> and the turn to 1.
\<close>

theorem startNewGame_without_playerCount:
  "players (state (startNewGame (opts\<lparr>playerCount := None\<rparr>) s))
     = [defaultPlayer\<lparr>p_id := ''player-1'', p_name := ''Player 1''\<rparr>]
   \<and> gamePhase (state (startNewGame (opts\<lparr>playerCount := None\<rparr>) s)) = Playing
   \<and> currentTurn (state (startNewGame (opts\<lparr>playerCount := None\<rparr>) s)) = 1
   \<and> players (state (startNewGame no_options s))
     = [defaultPlayer\<lparr>p_id := ''player-1'', p_name := ''Player 1''\<rparr>]
   \<and> gamePhase (state (startNewGame no_options s)) = Playing
   \<and> currentTurn (state (startNewGame no_options s)) = 1"
  by (simp add: startNewGame_def state_notifyObservers state_updateState
        newPlayers_def no_options_def)

text \<open>
  With a player count the players are numbered from 1; a missing or empty name and a
  short name list give the default name, and a negative count gives no player.
\<close>

lemma startNewGame_with_playerCount:
  "map (\<lambda>p. (p_id p, p_name p))
     (players (state (startNewGame \<lparr>playerCount = Some 2, playerNames = Some [''Amy'', ''Bo'']\<rparr>
                        new_store)))
     = [(''player-1'', ''Amy''), (''player-2'', ''Bo'')]
   \<and> map (\<lambda>p. (p_id p, p_name p))
     (players (state (startNewGame \<lparr>playerCount = Some 3, playerNames = Some [''Amy'', '''']\<rparr>
                        new_store)))
     = [(''player-1'', ''Amy''), (''player-2'', ''Player 2''), (''player-3'', ''Player 3'')]
   \<and> players (state (startNewGame \<lparr>playerCount = Some (- 1), playerNames = None\<rparr> new_store))
     = []"
  by (simp add: startNewGame_def state_notifyObservers state_updateState newPlayers_def
        playerNameAt_def upt_rec defaultPlayer_def)

subsection \<open>Damage and defeat\<close>

lemma defeatBoss_Some:
  assumes "currentBoss (state s) = Some b"
  shows "\<exists>s'. defeatBoss s = Inr s'
           \<and> gamePhase (state s')
               = (if list_all defeated (markDefeated (b_id b) (bosses (gameData s)))
                  then Victory else Playing)
           \<and> currentBoss (state s') = None
           \<and> defeatedBosses (state s') = defeatedBosses (state s) @ [b_id b]
           \<and> bosses (gameData s') = markDefeated (b_id b) (bosses (gameData s))
           \<and> observers s' = observers s"
  using assms
  by (simp add: defeatBoss_def Let_def state_notifyObservers state_updateState
        gameData_notifyObservers gameData_updateState
        observers_notifyObservers observers_updateState)

text \<open>
  The assignment never leaves the health negative, and a damage that is not negative
  keeps a health that was at most \<open>maxHealth\<close> so.
\<close>

lemma damagedBoss_in_range:
  "0 \<le> health (damagedBoss damage b)"
  "0 \<le> damage \<Longrightarrow> health b \<le> maxHealth b \<Longrightarrow> 0 \<le> maxHealth b
     \<Longrightarrow> health (damagedBoss damage b) \<le> maxHealth b"
  by (simp_all add: damagedBoss_def)

text \<open>
  C3. With an active boss and an amount that is at least the boss's health, the
  assignment in \<open>damageBoss\<close> leaves the health at exactly 0 (never negative, and
  within \<open>[0, maxHealth]\<close> for a boss whose \<open>maxHealth\<close> is not negative) and
  \<open>defeatBoss\<close> runs on the store with that boss; the call returns, the phase is no
  longer \<open>boss\<close>, there is no current boss, and the boss id has been appended to
  \<open>defeatedBosses\<close> once (the list holds it one more time than before).
\<close>

theorem damageBoss_lethal:
  assumes "currentBoss (state s) = Some b" and "health b \<le> amount"
  shows "health (damagedBoss amount b) = 0
         \<and> (0 \<le> maxHealth b \<longrightarrow> health (damagedBoss amount b) \<le> maxHealth b)
         \<and> damageBoss amount s
             = defeatBoss (s\<lparr>state := (state s)\<lparr>currentBoss := Some (damagedBoss amount b)\<rparr>\<rparr>)
         \<and> (\<exists>s'. damageBoss amount s = Inr s'
                \<and> gamePhase (state s') \<noteq> Boss
                \<and> (gamePhase (state s') = Victory \<or> gamePhase (state s') = Playing)
                \<and> currentBoss (state s') = None
                \<and> defeatedBosses (state s') = defeatedBosses (state s) @ [b_id b]
                \<and> count_list (defeatedBosses (state s')) (b_id b)
                    = count_list (defeatedBosses (state s)) (b_id b) + 1)"
proof -
  have h0: "health (damagedBoss amount b) = 0"
    using assms(2) by (simp add: damagedBoss_def)
  let ?s1 = "s\<lparr>state := (state s)\<lparr>currentBoss := Some (damagedBoss amount b)\<rparr>\<rparr>"
  have run: "damageBoss amount s = defeatBoss ?s1"
    using assms(1) h0 by (simp add: damageBoss_def Let_def)
  have cur: "currentBoss (state ?s1) = Some (damagedBoss amount b)"
    by simp
  from defeatBoss_Some [OF cur] obtain s' where
    s': "defeatBoss ?s1 = Inr s'"
        "gamePhase (state s')
           = (if list_all defeated
                   (markDefeated (b_id (damagedBoss amount b)) (bosses (gameData ?s1)))
              then Victory else Playing)"
        "currentBoss (state s') = None"
        "defeatedBosses (state s')
           = defeatedBosses (state ?s1) @ [b_id (damagedBoss amount b)]"
    by blast
  have bid: "b_id (damagedBoss amount b) = b_id b"
    by (simp add: damagedBoss_def)
  have ph: "gamePhase (state s') = Victory \<or> gamePhase (state s') = Playing"
    using s'(2) by (simp split: if_splits)
  have lst: "defeatedBosses (state s') = defeatedBosses (state s) @ [b_id b]"
    using s'(4) bid by simp
  have "damageBoss amount s = Inr s'
        \<and> gamePhase (state s') \<noteq> Boss
        \<and> (gamePhase (state s') = Victory \<or> gamePhase (state s') = Playing)
        \<and> currentBoss (state s') = None
        \<and> defeatedBosses (state s') = defeatedBosses (state s) @ [b_id b]
        \<and> count_list (defeatedBosses (state s')) (b_id b)
            = count_list (defeatedBosses (state s)) (b_id b) + 1"
    using run s'(1) s'(3) ph lst by auto
  then have "\<exists>s'. damageBoss amount s = Inr s'
        \<and> gamePhase (state s') \<noteq> Boss
        \<and> (gamePhase (state s') = Victory \<or> gamePhase (state s') = Playing)
        \<and> currentBoss (state s') = None
        \<and> defeatedBosses (state s') = defeatedBosses (state s) @ [b_id b]
        \<and> count_list (defeatedBosses (state s')) (b_id b)
            = count_list (defeatedBosses (state s)) (b_id b) + 1"
    by (rule exI)
  moreover have "0 \<le> maxHealth b \<longrightarrow> health (damagedBoss amount b) \<le> maxHealth b"
    using h0 by simp
  ultimately show ?thesis
    using h0 run by (intro conjI)
qed

lemma currentBoss_boss_fight: "currentBoss (state boss_fight) = Some (hd default_bosses)"
  by (simp add: boss_fight_def startBossEncounter_def new_store_def default_bosses_def
        state_notifyObservers state_updateState)

theorem damageBoss_lethal_witness:
  "currentBoss (state boss_fight) = Some (hd default_bosses)
   \<and> health (hd default_bosses) \<le> 150
   \<and> health (damagedBoss 150 (hd default_bosses)) = 0
   \<and> (\<exists>s'. damageBoss 150 boss_fight = Inr s'
          \<and> gamePhase (state s') \<noteq> Boss
          \<and> currentBoss (state s') = None
          \<and> defeatedBosses (state s') = defeatedBosses (state boss_fight) @ [''vorthak-destroyer''])"
proof -
  have h: "health (hd default_bosses) \<le> 150"
    by (simp add: default_bosses_def)
  have i: "b_id (hd default_bosses) = ''vorthak-destroyer''"
    by (simp add: default_bosses_def)
  note t = damageBoss_lethal [OF currentBoss_boss_fight h]
  from t have z: "health (damagedBoss 150 (hd default_bosses)) = 0"
    by blast
  from t have "\<exists>s'. damageBoss 150 boss_fight = Inr s'
          \<and> gamePhase (state s') \<noteq> Boss
          \<and> currentBoss (state s') = None
          \<and> defeatedBosses (state s')
              = defeatedBosses (state boss_fight) @ [b_id (hd default_bosses)]"
    by blast
  then have ex: "\<exists>s'. damageBoss 150 boss_fight = Inr s'
          \<and> gamePhase (state s') \<noteq> Boss
          \<and> currentBoss (state s') = None
          \<and> defeatedBosses (state s')
              = defeatedBosses (state boss_fight) @ [''vorthak-destroyer'']"
    by (simp only: i)
  show ?thesis
    using currentBoss_boss_fight h z ex by (intro conjI)
qed

subsection \<open>Victory\<close>

lemma markDefeated_map:
  "distinct (map b_id bs) \<Longrightarrow>
   markDefeated bid bs = map (\<lambda>b. if b_id b = bid then b\<lparr>defeated := True\<rparr> else b) bs"
proof (induction bs)
  case Nil
  show ?case by (simp add: markDefeated_def)
next
  case (Cons x xs)
  show ?case
  proof (cases "b_id x = bid")
    case True
    then have "bid \<notin> b_id ` set xs"
      using Cons.prems by auto
    then have "map (\<lambda>b. if b_id b = bid then b\<lparr>defeated := True\<rparr> else b) xs = xs"
      by (induction xs) auto
    with True show ?thesis
      by (simp add: markDefeated_def)
  next
    case False
    with Cons show ?thesis
      by (simp add: markDefeated_def split: option.splits)
  qed
qed

lemma find_first_Some:
  "bid \<in> b_id ` set bs \<Longrightarrow> \<exists>b. find_first (\<lambda>b. b_id b = bid) bs = Some b \<and> b_id b = bid"
  by (induction bs) auto

lemma defeatById_result:
  assumes "distinct (map b_id (bosses (gameData s)))"
      and "bid \<in> b_id ` set (bosses (gameData s))"
  shows "\<exists>s'. defeatById bid s = Inr s'
           \<and> bosses (gameData s')
               = map (\<lambda>b. if b_id b = bid then b\<lparr>defeated := True\<rparr> else b)
                     (bosses (gameData s))
           \<and> gamePhase (state s')
               = (if list_all defeated (bosses (gameData s')) then Victory else Playing)"
proof -
  from find_first_Some [OF assms(2)] obtain b where
    b: "find_first (\<lambda>b. b_id b = bid) (bosses (gameData s)) = Some b" "b_id b = bid"
    by blast
  let ?s1 = "notifyObservers (BossEncounterStarted b)
               (updateState (\<lambda>st. st\<lparr>gamePhase := Boss, currentBoss := Some b,
                                       currentEncounter := None\<rparr>) s)"
  have start: "startBossEncounter (BossId bid) s = Inr ?s1"
    using b(1) by (simp add: startBossEncounter_def)
  have cur: "currentBoss (state ?s1) = Some b"
    by (simp add: state_notifyObservers state_updateState)
  have gd: "gameData ?s1 = gameData s"
    by (simp add: gameData_notifyObservers gameData_updateState)
  from defeatBoss_Some [OF cur] obtain s' where
    s': "defeatBoss ?s1 = Inr s'"
        "gamePhase (state s')
           = (if list_all defeated (markDefeated (b_id b) (bosses (gameData ?s1)))
              then Victory else Playing)"
        "bosses (gameData s') = markDefeated (b_id b) (bosses (gameData ?s1))"
    by blast
  have "defeatById bid s = Inr s'"
    using start s'(1) by (simp add: defeatById_def)
  moreover have "bosses (gameData s')
      = map (\<lambda>b. if b_id b = bid then b\<lparr>defeated := True\<rparr> else b) (bosses (gameData s))"
    using s'(3) gd b(2) markDefeated_map [OF assms(1)] by simp
  moreover have "gamePhase (state s')
      = (if list_all defeated (bosses (gameData s')) then Victory else Playing)"
    using s'(2) s'(3) by simp
  ultimately show ?thesis by blast
qed

lemma defeatAll_result:
  assumes "distinct (map b_id (bosses (gameData s)))"
      and "set order \<subseteq> b_id ` set (bosses (gameData s))"
  shows "\<exists>s'. defeatAll order s = Inr s'
           \<and> bosses (gameData s')
               = map (\<lambda>b. if b_id b \<in> set order then b\<lparr>defeated := True\<rparr> else b)
                     (bosses (gameData s))
           \<and> (order \<noteq> [] \<longrightarrow> gamePhase (state s')
               = (if list_all defeated (bosses (gameData s')) then Victory else Playing))"
  using assms
proof (induction order arbitrary: s)
  case Nil
  then show ?case by (simp add: map_idI)
next
  case (Cons bid rest)
  have "bid \<in> b_id ` set (bosses (gameData s))"
    using Cons.prems(2) by simp
  from defeatById_result [OF Cons.prems(1) this] obtain s1 where
    s1: "defeatById bid s = Inr s1"
        "bosses (gameData s1)
           = map (\<lambda>b. if b_id b = bid then b\<lparr>defeated := True\<rparr> else b)
                 (bosses (gameData s))"
        "gamePhase (state s1)
           = (if list_all defeated (bosses (gameData s1)) then Victory else Playing)"
    by blast
  have ids: "map b_id (bosses (gameData s1)) = map b_id (bosses (gameData s))"
    by (simp add: s1(2) o_def)
  have d1: "distinct (map b_id (bosses (gameData s1)))"
    using Cons.prems(1) ids by simp
  have "b_id ` set (bosses (gameData s1)) = b_id ` set (bosses (gameData s))"
    using ids by (metis list.set_map)
  then have sub1: "set rest \<subseteq> b_id ` set (bosses (gameData s1))"
    using Cons.prems(2) by simp
  from Cons.IH [OF d1 sub1] obtain s' where
    s': "defeatAll rest s1 = Inr s'"
        "bosses (gameData s')
           = map (\<lambda>b. if b_id b \<in> set rest then b\<lparr>defeated := True\<rparr> else b)
                 (bosses (gameData s1))"
        "rest \<noteq> [] \<longrightarrow> gamePhase (state s')
           = (if list_all defeated (bosses (gameData s')) then Victory else Playing)"
    by blast
  have run: "defeatAll (bid # rest) s = Inr s'"
    using s1(1) s'(1) by simp
  have bs: "bosses (gameData s')
      = map (\<lambda>b. if b_id b \<in> set (bid # rest) then b\<lparr>defeated := True\<rparr> else b)
            (bosses (gameData s))"
    unfolding s'(2) s1(2) by (simp add: o_def)
  have ph: "gamePhase (state s')
      = (if list_all defeated (bosses (gameData s')) then Victory else Playing)"
  proof (cases "rest = []")
    case True
    then have "s' = s1" using s'(1) by simp
    then show ?thesis using s1(3) by simp
  next
    case False
    then show ?thesis using s'(3) by simp
  qed
  show ?case using run bs ph by blast
qed

text \<open>
  For a catalogue with distinct boss ids, defeating a non-empty sequence of catalogue
  bosses succeeds and leaves the phase \<open>victory\<close> if every catalogue boss is then
  marked defeated and \<open>playing\<close> otherwise. So defeating every catalogue boss, in any
  order, gives \<open>victory\<close>; and from a catalogue with no boss marked defeated (a new
  store, or after \<open>resetGame\<close>), defeating all but one leaves \<open>playing\<close>.
\<close>

lemma defeating_every_boss_gives_victory:
  assumes "distinct (map b_id (bosses (gameData s)))"
      and "order \<noteq> []"
      and "set order \<subseteq> b_id ` set (bosses (gameData s))"
  shows "\<exists>s'. defeatAll order s = Inr s'
           \<and> gamePhase (state s')
               = (if list_all defeated (bosses (gameData s')) then Victory else Playing)
           \<and> (set order = b_id ` set (bosses (gameData s))
                \<longrightarrow> gamePhase (state s') = Victory)
           \<and> (list_all (\<lambda>b. \<not> defeated b) (bosses (gameData s))
                \<and> missing \<in> b_id ` set (bosses (gameData s))
                \<and> set order = b_id ` set (bosses (gameData s)) - {missing}
                \<longrightarrow> gamePhase (state s') = Playing)"
proof -
  from defeatAll_result [OF assms(1) assms(3)] obtain s' where
    s': "defeatAll order s = Inr s'"
        "bosses (gameData s')
           = map (\<lambda>b. if b_id b \<in> set order then b\<lparr>defeated := True\<rparr> else b)
                 (bosses (gameData s))"
        "gamePhase (state s')
           = (if list_all defeated (bosses (gameData s')) then Victory else Playing)"
    using assms(2) by blast
  have all: "gamePhase (state s') = Victory"
    if "set order = b_id ` set (bosses (gameData s))"
  proof -
    have "list_all defeated (bosses (gameData s'))"
      unfolding s'(2) using that by (simp add: list_all_iff)
    then show ?thesis using s'(3) by simp
  qed
  have but_one: "gamePhase (state s') = Playing"
    if fresh: "list_all (\<lambda>b. \<not> defeated b) (bosses (gameData s))"
      and m: "missing \<in> b_id ` set (bosses (gameData s))"
      and o: "set order = b_id ` set (bosses (gameData s)) - {missing}"
  proof -
    from m obtain b where b: "b \<in> set (bosses (gameData s))" "b_id b = missing"
      by auto
    have "b_id b \<notin> set order" using o b(2) by simp
    moreover have "\<not> defeated b" using fresh b(1) by (simp add: list_all_iff)
    ultimately have "\<not> list_all defeated (bosses (gameData s'))"
      unfolding s'(2) using b(1) by (auto simp: list_all_iff intro!: bexI [of _ b])
    then show ?thesis using s'(3) by simp
  qed
  show ?thesis
    using s'(1) s'(3) all but_one by blast
qed

lemma new_store_catalogue:
  "distinct (map b_id (bosses (gameData new_store)))"
  "b_id ` set (bosses (gameData new_store))
     = {''vorthak-destroyer'', ''malachar-corrupted'', ''nethys-ancient''}"
  "list_all (\<lambda>b. \<not> defeated b) (bosses (gameData new_store))"
  by (simp_all add: new_store_def default_bosses_def)

lemma defeating_every_boss_at_new_store:
  "(\<exists>s'. defeatAll [''nethys-ancient'', ''vorthak-destroyer'', ''malachar-corrupted'']
            new_store = Inr s'
         \<and> gamePhase (state s') = Victory)
   \<and> (\<exists>s'. defeatAll [''nethys-ancient'', ''vorthak-destroyer''] new_store = Inr s'
         \<and> gamePhase (state s') = Playing)"
proof -
  have a: "set [''nethys-ancient'', ''vorthak-destroyer'', ''malachar-corrupted'']
             = b_id ` set (bosses (gameData new_store))"
    unfolding new_store_catalogue(2) by auto
  have b: "set [''nethys-ancient'', ''vorthak-destroyer'']
             = b_id ` set (bosses (gameData new_store)) - {''malachar-corrupted''}"
    unfolding new_store_catalogue(2) by auto
  have m: "''malachar-corrupted'' \<in> b_id ` set (bosses (gameData new_store))"
    unfolding new_store_catalogue(2) by simp
  have "\<exists>s'. defeatAll [''nethys-ancient'', ''vorthak-destroyer'', ''malachar-corrupted'']
            new_store = Inr s' \<and> gamePhase (state s') = Victory"
    using defeating_every_boss_gives_victory
            [of new_store "[''nethys-ancient'', ''vorthak-destroyer'', ''malachar-corrupted'']"]
          new_store_catalogue(1) a
    by blast
  moreover have "\<exists>s'. defeatAll [''nethys-ancient'', ''vorthak-destroyer''] new_store = Inr s'
         \<and> gamePhase (state s') = Playing"
    using defeating_every_boss_gives_victory
            [of new_store "[''nethys-ancient'', ''vorthak-destroyer'']" "''malachar-corrupted''"]
          new_store_catalogue(1) new_store_catalogue(3) b m
    by blast
  ultimately show ?thesis by blast
qed

lemma bosses_won_store:
  "bosses (gameData won_store) = map (\<lambda>b. b\<lparr>defeated := True\<rparr>) default_bosses"
  by (simp add: won_store_def defeatById_def startBossEncounter_def defeatBoss_def
        markDefeated_def Let_def new_store_def default_bosses_def
        state_notifyObservers state_updateState gameData_notifyObservers gameData_updateState)

lemma second_game_facts:
  "gamePhase (state second_game) = Playing"
  "defeatedBosses (state second_game) = []"
  "bosses (gameData second_game) = map (\<lambda>b. b\<lparr>defeated := True\<rparr>) default_bosses"
  by (simp_all add: second_game_def startNewGame_def state_notifyObservers state_updateState
        gameData_notifyObservers gameData_updateState bosses_won_store)

text \<open>
  C4 (the code in a new game that follows a won game). \<open>startNewGame\<close> empties
  \<open>defeatedBosses\<close> but leaves the catalogue's \<open>defeated\<close> marks of the previous game,
  which only \<open>resetGame\<close> clears. In the new game the phase is \<open>playing\<close> and no boss
  is listed as defeated, yet defeating two of the three catalogue bosses, and already
  defeating one, sets the phase to \<open>victory\<close>.
\<close>

theorem new_game_after_victory_wins_early:
  "gamePhase (state second_game) = Playing
   \<and> defeatedBosses (state second_game) = []
   \<and> map defeated (bosses (gameData second_game)) = [True, True, True]
   \<and> map_sum id (\<lambda>s. (gamePhase (state s), defeatedBosses (state s)))
       (defeatAll [''vorthak-destroyer'', ''malachar-corrupted''] second_game)
     = Inr (Victory, [''vorthak-destroyer'', ''malachar-corrupted''])
   \<and> map_sum id (\<lambda>s. (gamePhase (state s), defeatedBosses (state s)))
       (defeatAll [''nethys-ancient''] second_game)
     = Inr (Victory, [''nethys-ancient''])"
  by (simp add: second_game_facts defeatById_def startBossEncounter_def defeatBoss_def
        markDefeated_def Let_def default_bosses_def
        state_notifyObservers state_updateState gameData_notifyObservers gameData_updateState)

subsection \<open>Observer notifications\<close>

lemma delivered_notify:
  "delivered s (notifyObservers c s) = toAll (changeType c) s"
  by (simp add: delivered_def toAll_def notifyObservers_def)

lemma delivered_update_notify:
  "delivered s (notifyObservers c (updateState f s))
     = toAll ''state_update'' s @ toAll (changeType c) s"
  by (simp add: delivered_def toAll_def notifyObservers_def updateState_def Let_def)

lemma delivered_cong:
  "notified s1 = notified s \<Longrightarrow> observers s1 = observers s \<Longrightarrow>
   delivered s s' = delivered s1 s' \<and> toAll ty s = toAll ty s1"
  by (simp add: delivered_def toAll_def)

lemma delivered_defeatBoss:
  "defeatBoss s = Inr s' \<Longrightarrow>
   delivered s s' = toAll ''state_update'' s @ toAll ''boss_defeated'' s"
  by (auto simp: defeatBoss_def Let_def delivered_def toAll_def notifyObservers_def
        updateState_def split: option.splits)

lemma delivered_damageBoss:
  assumes "damageBoss d s = Inr s'"
  shows "delivered s s' = toAll ''state_update'' s @ toAll ''boss_damaged'' s
       \<or> delivered s s' = toAll ''state_update'' s @ toAll ''boss_defeated'' s"
proof (cases "currentBoss (state s)")
  case None
  with assms show ?thesis by (simp add: damageBoss_def)
next
  case (Some b)
  let ?s1 = "s\<lparr>state := (state s)\<lparr>currentBoss := Some (damagedBoss d b)\<rparr>\<rparr>"
  have eq: "delivered s s' = delivered ?s1 s'" "\<And>ty. toAll ty s = toAll ty ?s1"
    by (simp_all add: delivered_def toAll_def)
  show ?thesis
  proof (cases "health (damagedBoss d b) \<le> 0")
    case True
    with Some assms have "defeatBoss ?s1 = Inr s'"
      by (simp add: damageBoss_def Let_def)
    from delivered_defeatBoss [OF this] show ?thesis
      using eq by simp
  next
    case False
    with Some assms have
      "s' = notifyObservers (BossDamaged d (damagedBoss d b))
              (updateState (\<lambda>st. st\<lparr>currentBoss := Some (damagedBoss d b)\<rparr>) ?s1)"
      by (simp add: damageBoss_def Let_def)
    then have "delivered ?s1 s' = toAll ''state_update'' ?s1 @ toAll ''boss_damaged'' ?s1"
      by (simp add: delivered_update_notify)
    then show ?thesis using eq by simp
  qed
qed

lemma delivered_startBossEncounter:
  "startBossEncounter r s = Inr s' \<Longrightarrow>
   delivered s s' = toAll ''state_update'' s @ toAll ''boss_encounter_started'' s"
  by (auto simp: startBossEncounter_def Let_def delivered_update_notify split: option.splits)

lemma delivered_loadGame:
  "loadGame sd s = Inr s' \<Longrightarrow> delivered s s' = toAll ''game_loaded'' s"
  by (auto simp: loadGame_def delivered_def toAll_def notifyObservers_def split: option.splits)

text \<open>
  C5 (as amended). Every operation that goes through \<open>updateState\<close> calls each
  subscribed callback twice before it returns: first all callbacks with the
  \<open>state_update\<close> change of \<open>updateState\<close>, then all callbacks with the operation's own
  typed change. \<open>resetGame\<close>, \<open>saveGame\<close> and \<open>loadGame\<close> assign the state directly and
  call each callback once, with their typed change. An operation that throws notifies
  nobody.
\<close>

theorem observers_notified_twice_per_update:
  "delivered s (startNewGame opts s) = toAll ''state_update'' s @ toAll ''game_started'' s
   \<and> delivered s (startEncounter enc s)
       = toAll ''state_update'' s @ toAll ''encounter_started'' s
   \<and> delivered s (addCardToHand pid c s)
       = toAll ''state_update'' s @ toAll ''card_added_to_hand'' s
   \<and> delivered s (playCard pid c z s) = toAll ''state_update'' s @ toAll ''card_played'' s
   \<and> delivered s (addToInventory newId it s)
       = toAll ''state_update'' s @ toAll ''item_added_to_inventory'' s
   \<and> delivered s (addQuest newId q s) = toAll ''state_update'' s @ toAll ''quest_added'' s
   \<and> delivered s (updateQuestProgress qid pr s)
       = toAll ''state_update'' s @ toAll ''quest_progress_updated'' s
   \<and> delivered s (changeLocation loc s)
       = toAll ''state_update'' s @ toAll ''location_changed'' s
   \<and> delivered s (updateSettings merge s)
       = toAll ''state_update'' s @ toAll ''settings_updated'' s
   \<and> (case startBossEncounter r s of
         Inl e \<Rightarrow> True
       | Inr s' \<Rightarrow> delivered s s'
           = toAll ''state_update'' s @ toAll ''boss_encounter_started'' s)
   \<and> (case damageBoss d s of
         Inl e \<Rightarrow> True
       | Inr s' \<Rightarrow>
           delivered s s' = toAll ''state_update'' s @ toAll ''boss_damaged'' s
         \<or> delivered s s' = toAll ''state_update'' s @ toAll ''boss_defeated'' s)
   \<and> (case defeatBoss s of
         Inl e \<Rightarrow> True
       | Inr s' \<Rightarrow> delivered s s' = toAll ''state_update'' s @ toAll ''boss_defeated'' s)
   \<and> delivered s (resetGame s) = toAll ''game_reset'' s
   \<and> delivered s (snd (saveGame now s)) = toAll ''game_saved'' s
   \<and> (case loadGame sd s of
         Inl e \<Rightarrow> True
       | Inr s' \<Rightarrow> delivered s s' = toAll ''game_loaded'' s)"
proof -
  have 1: "delivered s (startNewGame opts s)
             = toAll ''state_update'' s @ toAll ''game_started'' s"
    by (simp add: startNewGame_def delivered_update_notify)
  have 2: "delivered s (startEncounter enc s)
             = toAll ''state_update'' s @ toAll ''encounter_started'' s"
    by (simp add: startEncounter_def delivered_update_notify)
  have 3: "delivered s (addCardToHand pid c s)
             = toAll ''state_update'' s @ toAll ''card_added_to_hand'' s"
    by (simp add: addCardToHand_def delivered_update_notify)
  have 4: "delivered s (playCard pid c z s)
             = toAll ''state_update'' s @ toAll ''card_played'' s"
    by (simp add: playCard_def delivered_update_notify)
  have 5: "delivered s (addToInventory newId it s)
             = toAll ''state_update'' s @ toAll ''item_added_to_inventory'' s"
    by (simp add: addToInventory_def delivered_update_notify)
  have 6: "delivered s (addQuest newId q s)
             = toAll ''state_update'' s @ toAll ''quest_added'' s"
    by (simp add: addQuest_def delivered_update_notify)
  have 7: "delivered s (updateQuestProgress qid pr s)
             = toAll ''state_update'' s @ toAll ''quest_progress_updated'' s"
    by (simp add: updateQuestProgress_def delivered_update_notify)
  have 8: "delivered s (changeLocation loc s)
             = toAll ''state_update'' s @ toAll ''location_changed'' s"
    by (simp add: changeLocation_def delivered_update_notify)
  have 9: "delivered s (updateSettings merge s)
             = toAll ''state_update'' s @ toAll ''settings_updated'' s"
    by (simp add: updateSettings_def Let_def delivered_update_notify)
  have 10: "case startBossEncounter r s of
              Inl e \<Rightarrow> True
            | Inr s' \<Rightarrow> delivered s s'
                = toAll ''state_update'' s @ toAll ''boss_encounter_started'' s"
    by (simp add: delivered_startBossEncounter split: sum.splits)
  have 11: "case damageBoss d s of
              Inl e \<Rightarrow> True
            | Inr s' \<Rightarrow>
                delivered s s' = toAll ''state_update'' s @ toAll ''boss_damaged'' s
              \<or> delivered s s' = toAll ''state_update'' s @ toAll ''boss_defeated'' s"
    using delivered_damageBoss by (simp split: sum.splits)
  have 12: "case defeatBoss s of
              Inl e \<Rightarrow> True
            | Inr s' \<Rightarrow> delivered s s'
                = toAll ''state_update'' s @ toAll ''boss_defeated'' s"
    by (simp add: delivered_defeatBoss split: sum.splits)
  have 13: "delivered s (resetGame s) = toAll ''game_reset'' s"
    by (simp add: resetGame_def delivered_def toAll_def notifyObservers_def)
  have 14: "delivered s (snd (saveGame now s)) = toAll ''game_saved'' s"
    by (simp add: saveGame_def Let_def delivered_notify)
  have 15: "case loadGame sd s of
              Inl e \<Rightarrow> True
            | Inr s' \<Rightarrow> delivered s s' = toAll ''game_loaded'' s"
    by (simp add: delivered_loadGame split: sum.splits)
  show ?thesis
    using 1 2 3 4 5 6 7 8 9 10 11 12 13 14 15 by blast
qed

text \<open>
  With one subscribed callback, \<open>addQuest\<close> calls it twice, and the first call carries
  \<open>state_update\<close>, not \<open>quest_added\<close>.
\<close>

theorem addQuest_single_notification_counterexample:
  "delivered watched_store (addQuest ''quest-1'' sample_quest watched_store)
     = [(7, ''state_update''), (7, ''quest_added'')]
   \<and> delivered watched_store (addQuest ''quest-1'' sample_quest watched_store)
     \<noteq> [(7, ''quest_added'')]"
  by (simp add: addQuest_def delivered_update_notify toAll_def watched_store_def
        subscribe_def new_store_def)

theorem observers_notified_twice_per_update_witness:
  "delivered watched_store (changeLocation ''The Shadowlands'' watched_store)
     = [(7, ''state_update''), (7, ''location_changed'')]
   \<and> delivered watched_store (resetGame watched_store) = [(7, ''game_reset'')]"
  using observers_notified_twice_per_update [of watched_store]
  by (simp add: toAll_def watched_store_def subscribe_def new_store_def)

subsection \<open>Playing a card\<close>

lemma getZone_playCardOf:
  "z \<noteq> Hand \<Longrightarrow> getZone z (playCardOf c z p) = getZone z p @ [c]"
  by (cases z) (simp_all add: playCardOf_def Let_def)

lemma hand_playCardOf:
  "z \<noteq> Hand \<Longrightarrow> hand (playCardOf c z p) = filter (\<lambda>x. card_id x \<noteq> card_id c) (hand p)"
  by (cases z) (simp_all add: playCardOf_def Let_def)

lemma players_playCard:
  "players (state (playCard playerId c z s))
     = map (\<lambda>p. if p_id p = playerId then playCardOf c z p else p) (players (state s))"
  by (simp add: playCard_def state_notifyObservers state_updateState)

text \<open>
  C6 (as amended). For every player whose id equals \<open>playerId\<close> and a target zone other
  than the hand, after \<open>playCard\<close> that player's hand holds no card with the card's id,
  and the target zone is the old zone with the card appended: it holds the id exactly one
  more time than before, hence exactly once when it did not hold it before.
\<close>

theorem playCard_moves_card:
  assumes "i < length (players (state s))"
      and "p_id (players (state s) ! i) = playerId"
      and "z \<noteq> Hand"
  shows "countId (card_id c) (hand (players (state (playCard playerId c z s)) ! i)) = 0
       \<and> getZone z (players (state (playCard playerId c z s)) ! i)
           = getZone z (players (state s) ! i) @ [c]
       \<and> countId (card_id c) (getZone z (players (state (playCard playerId c z s)) ! i))
           = countId (card_id c) (getZone z (players (state s) ! i)) + 1
       \<and> (countId (card_id c) (getZone z (players (state s) ! i)) = 0
            \<longrightarrow> countId (card_id c)
                  (getZone z (players (state (playCard playerId c z s)) ! i)) = 1)"
proof -
  let ?p = "players (state s) ! i"
  have p': "players (state (playCard playerId c z s)) ! i = playCardOf c z ?p"
    using assms(1,2) by (simp add: players_playCard)
  have h: "countId (card_id c) (hand (playCardOf c z ?p)) = 0"
    using assms(3) by (simp add: hand_playCardOf countId_def)
  have t: "getZone z (playCardOf c z ?p) = getZone z ?p @ [c]"
    using assms(3) by (rule getZone_playCardOf)
  have n: "countId (card_id c) (getZone z (playCardOf c z ?p))
             = countId (card_id c) (getZone z ?p) + 1"
    unfolding t by (simp add: countId_def)
  show ?thesis
    unfolding p' using h t n by simp
qed

lemma players_one_player_game:
  "players (state one_player_game)
     = [defaultPlayer\<lparr>p_id := ''player-1'', p_name := ''Player 1''\<rparr>]"
  by (simp add: one_player_game_def startNewGame_def state_notifyObservers
        state_updateState newPlayers_def no_options_def)

lemma players_replay_store:
  "players (state replay_store)
     = [defaultPlayer\<lparr>p_id := ''player-1'', p_name := ''Player 1'',
                       hand := [bolt], battlefield := [bolt]\<rparr>]"
  by (simp add: replay_store_def players_playCard players_one_player_game
        addCardToHand_def state_notifyObservers state_updateState
        playCardOf_def Let_def defaultPlayer_def bolt_def)

theorem playCard_moves_card_witness:
  "0 < length (players (state replay_store))
   \<and> p_id (players (state replay_store) ! 0) = ''player-1''
   \<and> Graveyard \<noteq> Hand
   \<and> countId ''bolt-1''
       (hand (players (state (playCard ''player-1'' bolt Graveyard replay_store)) ! 0)) = 0
   \<and> countId ''bolt-1''
       (graveyard (players (state (playCard ''player-1'' bolt Graveyard replay_store)) ! 0)) = 1"
proof -
  have a: "0 < length (players (state replay_store))"
    by (simp add: players_replay_store)
  have b: "p_id (players (state replay_store) ! 0) = ''player-1''"
    by (simp add: players_replay_store)
  have c: "Graveyard \<noteq> Hand" by simp
  have d: "countId (card_id bolt) (getZone Graveyard (players (state replay_store) ! 0)) = 0"
    by (simp add: players_replay_store countId_def defaultPlayer_def)
  have e: "card_id bolt = ''bolt-1''" by (simp add: bolt_def)
  have r: "countId (card_id bolt)
             (hand (players (state (playCard ''player-1'' bolt Graveyard replay_store)) ! 0)) = 0
           \<and> countId (card_id bolt)
             (getZone Graveyard
                (players (state (playCard ''player-1'' bolt Graveyard replay_store)) ! 0)) = 1"
    using playCard_moves_card [OF a b c, of bolt] d by blast
  show ?thesis
    using a b r unfolding e by simp
qed

text \<open>
  A second copy of a card already on the battlefield: after \<open>playCard\<close> the battlefield
  holds two entries with that id.
\<close>

theorem playCard_exactly_one_counterexample:
  "countId (card_id bolt)
     (getZone Battlefield
        (players (state (playCard ''player-1'' bolt Battlefield replay_store)) ! 0)) = 2
   \<and> p_id (players (state replay_store) ! 0) = ''player-1''"
  by (simp add: players_playCard players_replay_store playCardOf_def Let_def countId_def
        defaultPlayer_def bolt_def)

text \<open>With the hand as target zone the card is appended to the unfiltered hand.\<close>

lemma playCard_into_hand_keeps_card:
  "countId (card_id bolt)
     (hand (players (state (playCard ''player-1'' bolt Hand replay_store)) ! 0)) = 2"
  by (simp add: players_playCard players_replay_store playCardOf_def Let_def countId_def
        defaultPlayer_def bolt_def)

subsection \<open>Saving and loading with shared objects\<close>

text \<open>
  Loading a saved record into any store puts back the state and the game data that the
  record holds, and creates or changes no object. What the store then shows is the saved
  state as long as the current boss object has not been written since.
\<close>

lemma loadGameObj_restores:
  "\<exists>t'. loadGameObj (Some (fst (saveGameObj now w))) t = Inr t'
        \<and> w_state t' = w_state w
        \<and> w_gameData t' = w_gameData w
        \<and> objects t' = objects t"
  by (simp add: loadGameObj_def saveGameObj_def notifyObserversObj_def)

lemma viewState_same_objects:
  assumes "w_state t = w_state w"
      and "\<And>r. o_currentBoss (w_state w) = Some r \<Longrightarrow> objects t r = objects w r"
  shows "viewState t = viewState w"
  using assms by (cases "o_currentBoss (w_state w)") (simp_all add: viewState_def)

lemma new_world_view:
  "viewState new_world = initial_state"
  "viewBosses new_world = default_bosses"
  by (simp_all add: viewState_def viewBosses_def new_world_def initial_state_def
        default_bosses_def upt_rec)

text \<open>
  C8 (the code when the boss is damaged between saving and loading). After
  \<open>startBossEncounter('vorthak-destroyer')\<close>, \<open>saveGame()\<close>, \<open>damageBoss(50)\<close> and
  \<open>loadGame\<close> of the saved record, the current boss has health 100, not the 150 it had
  when the game was saved: the state is not the saved one, although \<open>currentTurn\<close> and
  \<open>location\<close> are.
\<close>

theorem save_damage_load_changes_boss:
  "(case save_damage_load (BossId ''vorthak-destroyer'') 50 new_world of
      Inl e \<Rightarrow> False
    | Inr (saved, loaded) \<Rightarrow>
        map_option health (currentBoss (viewState saved)) = Some 150
      \<and> map_option health (currentBoss (viewState loaded)) = Some 100
      \<and> viewState loaded \<noteq> viewState saved
      \<and> currentTurn (viewState loaded) = currentTurn (viewState saved)
      \<and> location (viewState loaded) = location (viewState saved))"
  by (simp add: save_damage_load_def startBossEncounterObj_def newObject_def
        saveGameObj_def damageBossObj_def loadGameObj_def updateStateObj_def
        notifyObserversObj_def viewState_def new_world_def default_bosses_def
        damagedBoss_def Let_def upt_rec)

section \<open>Properties of the AI service\<close>

lemma randomIndex_range:
  assumes "0 \<le> r" and "r < 1" and "0 < n"
  shows "0 \<le> randomIndex r n \<and> randomIndex r n < int n"
proof -
  have "0 \<le> r * of_nat n" using assms(1) by simp
  then have lo: "0 \<le> randomIndex r n" by (simp add: randomIndex_def)
  have "r * of_nat n < 1 * of_nat n"
    using assms(2,3) by (intro mult_strict_right_mono) simp_all
  then have "r * of_nat n < of_int (int n)" by simp
  then have "randomIndex r n < int n"
    unfolding randomIndex_def by (simp only: floor_less_iff)
  with lo show ?thesis by simp
qed

lemma arrayAt_in_range:
  "0 \<le> i \<Longrightarrow> i < int (length xs) \<Longrightarrow> \<exists>x. arrayAt xs i = Some x \<and> x \<in> set xs"
  by (simp add: arrayAt_def)

lemma filter_trusted:
  "filter (\<lambda>qg. trustworthy qg > 7/10) questGivers = trustedQuestGivers"
  by (simp add: questGivers_def trustedQuestGivers_def)

text \<open>
  C10. \<open>generateQuestGiver\<close> never returns \<open>undefined\<close>. The filter keeps exactly the
  three entries Elder Sage Meridian, Captain Ironheart and Village Elder, the index
  \<open>Math.floor(Math.random() * 3)\<close> lies within that list, and so for \<open>danger \<le> 0.7\<close>
  the result is one of these three; for \<open>danger > 0.7\<close> it is one of the five catalogue
  entries.
\<close>

theorem generateQuestGiver_defined:
  assumes "0 \<le> r" and "r < 1"
  shows "filter (\<lambda>qg. trustworthy qg > 7/10) questGivers = trustedQuestGivers
       \<and> length trustedQuestGivers = 3
       \<and> 0 \<le> randomIndex r 3
       \<and> randomIndex r 3 < int (length (filter (\<lambda>qg. trustworthy qg > 7/10) questGivers))
       \<and> (danger p \<le> 7/10 \<longrightarrow>
            (\<exists>qg. generateQuestGiver p r = Some qg \<and> qg \<in> set trustedQuestGivers))
       \<and> (danger p > 7/10 \<longrightarrow>
            (\<exists>qg. generateQuestGiver p r = Some qg \<and> qg \<in> set questGivers))"
proof -
  have len3: "length trustedQuestGivers = 3"
    by (simp add: trustedQuestGivers_def)
  have len5: "length questGivers = 5"
    by (simp add: questGivers_def)
  have r3: "0 \<le> randomIndex r 3 \<and> randomIndex r 3 < int 3"
    using randomIndex_range [OF assms, of 3] by simp
  have r5: "0 \<le> randomIndex r 5 \<and> randomIndex r 5 < int 5"
    using randomIndex_range [OF assms, of 5] by simp
  have low: "\<exists>qg. generateQuestGiver p r = Some qg \<and> qg \<in> set trustedQuestGivers"
    if "danger p \<le> 7/10"
  proof -
    have "generateQuestGiver p r = arrayAt trustedQuestGivers (randomIndex r 3)"
      unfolding generateQuestGiver_def filter_trusted using that by simp
    moreover have "\<exists>x. arrayAt trustedQuestGivers (randomIndex r 3) = Some x
                       \<and> x \<in> set trustedQuestGivers"
      using r3 len3 by (intro arrayAt_in_range) simp_all
    ultimately show ?thesis by simp
  qed
  have high: "\<exists>qg. generateQuestGiver p r = Some qg \<and> qg \<in> set questGivers"
    if "danger p > 7/10"
  proof -
    have "generateQuestGiver p r = arrayAt questGivers (randomIndex r 5)"
      using that by (simp add: generateQuestGiver_def len5)
    moreover have "\<exists>x. arrayAt questGivers (randomIndex r 5) = Some x \<and> x \<in> set questGivers"
      using r5 len5 by (intro arrayAt_in_range) simp_all
    ultimately show ?thesis by simp
  qed
  show ?thesis
    using filter_trusted len3 r3 low high by simp
qed

theorem generateQuestGiver_defined_witness:
  "(0::rat) \<le> 2/3 \<and> (2/3::rat) < 1
   \<and> danger \<lparr>creativity = 5/10, danger = 3/10, humor = 2/10,
        description = ''Safe, predictable encounters with lower difficulty''\<rparr> \<le> 7/10
   \<and> (\<exists>qg. generateQuestGiver \<lparr>creativity = 5/10, danger = 3/10, humor = 2/10,
               description = ''Safe, predictable encounters with lower difficulty''\<rparr> (2/3)
             = Some qg
           \<and> qg \<in> set trustedQuestGivers)"
proof -
  have a: "(0::rat) \<le> 2/3" and b: "(2/3::rat) < 1" by simp_all
  have d: "danger \<lparr>creativity = 5/10, danger = 3/10, humor = 2/10,
        description = ''Safe, predictable encounters with lower difficulty''\<rparr> \<le> 7/10"
    by simp
  show ?thesis
    using generateQuestGiver_defined [OF a b] a b d by blast
qed

lemma generateQuestGiver_cautious_example:
  "generateQuestGiver \<lparr>creativity = 5/10, danger = 3/10, humor = 2/10,
        description = ''Safe, predictable encounters with lower difficulty''\<rparr> (2/3)
     = Some \<lparr>qg_name = ''Village Elder'', qg_type = ''civilian'', trustworthy = 95/100\<rparr>"
proof -
  have i: "randomIndex (2/3) 3 = 2" by (simp add: randomIndex_def)
  show ?thesis
    unfolding generateQuestGiver_def filter_trusted
    by (simp add: i arrayAt_def trustedQuestGivers_def)
qed

text \<open>
  C2 (as amended). For a key that is none of the four catalogue entries (and not the
  name of a property inherited from \<open>Object.prototype\<close>), \<open>setPersonality\<close> sets the
  current personality to \<open>default\<close>, whatever it was before, and logs one warning.
\<close>

theorem setPersonality_unknown_resets_to_default:
  assumes "key \<notin> set [''default'', ''cautious'', ''experimental'', ''reckless'']"
      and "key \<notin> set objectPrototypeKeys"
  shows "personality (setPersonality key a) = ''default''
       \<and> console (setPersonality key a)
           = console a @ [Warn (''Unknown personality: '' @ key @ '', using default'')]"
proof -
  have "map_of personalities key = None"
    using assms(1) by (simp add: personalities_def)
  then have "\<not> personalityIsTruthy key"
    using assms(2) by (simp add: personalityIsTruthy_def)
  then show ?thesis by (simp add: setPersonality_def)
qed

theorem setPersonality_unknown_resets_to_default_witness:
  "''bogus'' \<notin> set [''default'', ''cautious'', ''experimental'', ''reckless'']
   \<and> ''bogus'' \<notin> set objectPrototypeKeys
   \<and> personality (setPersonality ''bogus'' (setPersonality ''cautious'' new_ai_service))
       = ''default''"
proof -
  have a: "''bogus'' \<notin> set [''default'', ''cautious'', ''experimental'', ''reckless'']"
    by simp
  have b: "''bogus'' \<notin> set objectPrototypeKeys"
    by (simp add: objectPrototypeKeys_def)
  show ?thesis
    using setPersonality_unknown_resets_to_default [OF a b] a b by simp
qed

text \<open>After \<open>setPersonality('reckless')\<close>, \<open>setPersonality('bogus')\<close> changes the personality.\<close>

theorem setPersonality_bogus_counterexample:
  "personality (setPersonality ''reckless'' new_ai_service) = ''reckless''
   \<and> personality (setPersonality ''bogus'' (setPersonality ''reckless'' new_ai_service))
       = ''default''
   \<and> personality (setPersonality ''bogus'' (setPersonality ''reckless'' new_ai_service))
       \<noteq> personality (setPersonality ''reckless'' new_ai_service)"
  by (simp add: setPersonality_def personalityIsTruthy_def personalities_def
        objectPrototypeKeys_def new_ai_service_def)

section \<open>Properties of the generator\<close>

declare processNestedGenerators.simps [simp del]

lemma regexExec_self: "regexExec ''[self]'' 0 = Some (0, ''self'')"
  by (simp add: regexExec_def bracketName_def)

lemma generate_self_referential:
  assumes rnd: "\<forall>k. 0 \<le> random k \<and> random k < 1"
      and gen: "generators g ''self'' = Some \<lparr>weight = w, items = [''[self]'']\<rparr>"
  shows "generate depth random ''self'' recordHistory g = None"
  using gen
proof (induction depth arbitrary: g recordHistory)
  case 0
  show ?case by simp
next
  case (Suc depth)
  let ?g1 = "g\<lparr>drawn := drawn g + 1\<rparr>"
  have "0 \<le> randomIndex (random (drawn g)) 1 \<and> randomIndex (random (drawn g)) 1 < int 1"
    using rnd by (intro randomIndex_range) simp_all
  then have idx: "nat (randomIndex (random (drawn g)) 1) = 0"
    by simp
  have sel: "selectRandomItem random [''[self]''] g = (''[self]'', ?g1)"
    using idx by (simp add: selectRandomItem_def)
  have g1: "generators ?g1 ''self'' = Some \<lparr>weight = w, items = [''[self]'']\<rparr>"
    using Suc.prems by simp
  have inner: "generate depth random ''self'' False ?g1 = None"
    by (rule Suc.IH [OF g1])
  have loop: "processNestedGenerators depth random ''[self]'' 0 0 ?g1 = None"
    using g1 inner
    by (simp add: regexExec_self processNestedGenerators.simps [of _ _ "''[self]''"])
  show ?case
    using Suc.prems sel loop by simp
qed

text \<open>
  C1 (the code at a generator that refers to itself). After
  \<open>addGenerator('self', {weight: 1, items: ['[self]']})\<close> the call \<open>generate('self')\<close>
  returns at no call depth: every \<open>processNestedGenerators\<close> calls \<open>generate('self')\<close>
  again before its counter \<open>iterations\<close> is incremented for the first time, so the cap
  of 10 rounds never applies and no output is produced.
\<close>

theorem generate_self_never_returns:
  assumes "\<forall>k. 0 \<le> random k \<and> random k < 1"
  shows "generate depth random ''self'' True self_generators = None"
proof -
  have "generators self_generators ''self'' = Some \<lparr>weight = 1, items = [''[self]'']\<rparr>"
    by (simp add: self_generators_def addGenerator_def)
  with assms show ?thesis
    by (rule generate_self_referential)
qed

theorem generate_self_never_returns_witness:
  "(\<forall>k. (0::rat) \<le> (\<lambda>k. 1/2) k \<and> (\<lambda>k. 1/2) k < (1::rat))
   \<and> generate 1000 (\<lambda>k. 1/2) ''self'' True self_generators = None"
  using generate_self_never_returns [of "\<lambda>k. 1/2" 1000] by simp

text \<open>Without a cycle the call returns once the depth suffices, and stays so at any greater depth.\<close>

lemma generate_door_returns:
  "map_option (map_sum id fst) (generate 2 (\<lambda>k. 1/2) ''door'' True door_generators)
     = Some (Inr ''a blue door to [place]'')"
  by (simp add: door_generators_def addGenerator_def selectRandomItem_def randomIndex_def
        regexExec_def bracketName_def stringReplace_def numeral_2_eq_2
        processNestedGenerators.simps)

lemma generate_door_depth_1:
  "generate 1 (\<lambda>k. 1/2) ''door'' True door_generators = None"
  by (simp add: door_generators_def addGenerator_def selectRandomItem_def randomIndex_def
        regexExec_def bracketName_def stringReplace_def processNestedGenerators.simps)

lemma generate_deeper:
  "generate d random n h g = Some x \<Longrightarrow> generate (Suc d) random n h g = Some x"
  "processNestedGenerators d random res li it g = Some y \<Longrightarrow>
     processNestedGenerators (Suc d) random res li it g = Some y"
proof (induction d random n h g and d random res li it g arbitrary: x and y
       rule: generate_processNestedGenerators.induct)
  case (1 random generatorName recordHistory g)
  then show ?case by simp
next
  case (2 depth random generatorName recordHistory g)
  show ?case
  proof (cases "generators g generatorName")
    case None
    with 2 show ?thesis by simp
  next
    case (Some gen)
    obtain item g1 where sel: "selectRandomItem random (items gen) g = (item, g1)"
      by (cases "selectRandomItem random (items gen) g")
    from "2.prems" Some sel obtain r where
      r: "processNestedGenerators depth random item 0 0 g1 = Some r"
      by (auto split: option.splits)
    have "processNestedGenerators (Suc depth) random item 0 0 g1 = Some r"
      using "2.IH" [OF Some sel [symmetric] r] .
    with "2.prems" Some sel r show ?thesis
      using generate.simps(2) [of "Suc depth" random generatorName recordHistory g]
      by simp
  qed
next
  case (3 depth random result lastIndex iterations g)
  show ?case
  proof (cases "regexExec result lastIndex")
    case None
    with "3.prems" show ?thesis
      by (simp add: processNestedGenerators.simps [of _ _ result lastIndex])
  next
    case (Some m)
    obtain index generatorName where m: "m = (index, generatorName)"
      by (cases m)
    show ?thesis
    proof (cases "iterations < 10")
      case False
      with "3.prems" Some m show ?thesis
        by (simp add: processNestedGenerators.simps [of _ _ result lastIndex])
    next
      case it: True
      show ?thesis
      proof (cases "generators g generatorName \<noteq> None")
        case False
        with "3.prems" Some m it have
          "processNestedGenerators depth random result
             (index + length generatorName + 2) (iterations + 1) g = Some y"
          by (simp add: processNestedGenerators.simps [of depth random result lastIndex])
        from "3.IH"(3) [OF Some m [symmetric] it False this]
        show ?thesis
          using Some m it False
          by (simp add: processNestedGenerators.simps [of "Suc depth" random result lastIndex])
      next
        case True
        from "3.prems" Some m it True obtain r where
          inner: "generate depth random generatorName False g = Some r"
          by (auto simp: processNestedGenerators.simps [of depth random result lastIndex]
                split: option.splits)
        have inner': "generate (Suc depth) random generatorName False g = Some r"
          using "3.IH"(1) [OF Some m [symmetric] it True inner] .
        show ?thesis
        proof (cases r)
          case (Inl e)
          with "3.prems" Some m it True inner have "y = Inl e"
            by (simp add: processNestedGenerators.simps [of depth random result lastIndex])
          with Some m it True inner' Inl show ?thesis
            by (simp add: processNestedGenerators.simps [of "Suc depth" random result lastIndex]
                  del: generate.simps)
        next
          case (Inr p)
          obtain replacement g1 where p: "p = (replacement, g1)"
            by (cases p)
          from "3.prems" Some m it True inner Inr p have
            rest: "processNestedGenerators depth random
                 (stringReplace result (''['' @ generatorName @ '']'') replacement)
                 0 (iterations + 1) g1 = Some y"
            by (simp add: processNestedGenerators.simps [of depth random result lastIndex])
          have rest': "processNestedGenerators (Suc depth) random
                 (stringReplace result (''['' @ generatorName @ '']'') replacement)
                 0 (iterations + 1) g1 = Some y"
            using "3.IH"(2) [OF Some m [symmetric] it True inner Inr p [symmetric] rest] .
          show ?thesis
            using Some m it True inner' Inr p rest'
            by (simp add: processNestedGenerators.simps [of "Suc depth" random result lastIndex]
                  del: generate.simps)
        qed
      qed
    qed
  qed
qed

end
